theory Spec2Isabelle
  imports Complex_Main
begin

section \<open>Numbers and configuration\<close>

text \<open>
  The program is \<^verbatim>\<open>src/main.js\<close>. A JavaScript number is an IEEE double. The height
  query and the vertex positions, whose results depend on the rounding, are modelled in
  that arithmetic: every operation there returns the double nearest to the exact result
  (\<open>fl64\<close>, ties to even). On finite inputs the operations of the height query stay
  within the range of the normal doubles, so the exponent is not bounded in the model.
  The other functions are modelled with exact reals. The integer-valued numbers the source uses as
  indices are \<open>int\<close> or \<open>nat\<close>.
\<close>

definition roundEven :: "real \<Rightarrow> int" where
  \<comment> \<open>the nearest integer, the even one of two equally near\<close>
  "roundEven r =
     (let f = \<lfloor>r\<rfloor>; d = r - of_int f
      in if d < 1 / 2 then f else if 1 / 2 < d then f + 1 else if even f then f else f + 1)"

definition fl64 :: "real \<Rightarrow> real" where
  \<comment> \<open>the nearest number with a significand of 53 bits\<close>
  "fl64 r =
     (if r = 0 then 0
      else let e = \<lfloor>log 2 \<bar>r\<bar>\<rfloor> - 52
           in of_int (roundEven (r / 2 powr of_int e)) * 2 powr of_int e)"

definition add64 :: "real \<Rightarrow> real \<Rightarrow> real" where
  "add64 a b = fl64 (a + b)"

definition sub64 :: "real \<Rightarrow> real \<Rightarrow> real" where
  "sub64 a b = fl64 (a - b)"

definition mul64 :: "real \<Rightarrow> real \<Rightarrow> real" where
  "mul64 a b = fl64 (a * b)"

definition div64 :: "real \<Rightarrow> real \<Rightarrow> real" where
  "div64 a b = fl64 (a / b)"

definition js_trunc :: "real \<Rightarrow> int" where
  \<comment> \<open>rounding towards zero, as the integer conversions of JavaScript do\<close>
  "js_trunc r = (if 0 \<le> r then \<lfloor>r\<rfloor> else \<lceil>r\<rceil>)"

definition js_rem :: "real \<Rightarrow> real \<Rightarrow> real" where
  \<comment> \<open>the operator \<^verbatim>\<open>%\<close> on numbers: the remainder takes the sign of the dividend;
      the remainder of two doubles is a double, so nothing is rounded\<close>
  "js_rem a b = a - b * of_int (js_trunc (a / b))"

definition toUint8 :: "real \<Rightarrow> nat" where
  \<comment> \<open>what a store into a \<^verbatim>\<open>Uint8Array\<close> keeps of a number: truncated, modulo 256\<close>
  "toUint8 r = nat (js_trunc r mod 256)"

definition terrainWidth :: real where "terrainWidth = 400"
definition terrainDepth :: real where "terrainDepth = 800"
definition resolution :: nat where "resolution = 128"
definition heightScale :: real where "heightScale = 30"
definition noiseScale :: real where "noiseScale = 1 / 100"

definition roadWidth :: real where "roadWidth = 12"
definition roadSegments :: nat where "roadSegments = 100"
definition roadTextureRepeat :: real where "roadTextureRepeat = 10"

definition worldWidth :: nat where "worldWidth = resolution"
definition worldDepth :: nat where "worldDepth = resolution"

definition size_c :: nat where
  \<comment> \<open>the source's \<^verbatim>\<open>size\<close>\<close>
  "size_c = worldWidth * worldDepth"

section \<open>Buffers, geometries and objects\<close>

datatype Vector3 = Vector3 (vec_x: real) (vec_y: real) (vec_z: real)

record bufferAttribute =
  array :: "real list"
  itemSize :: nat

definition count :: "bufferAttribute \<Rightarrow> nat" where
  "count a = length (array a) div itemSize a"

text \<open>
  A read outside the typed array gives \<^verbatim>\<open>undefined\<close> in JavaScript; the model returns
  \<open>None\<close> there. A write outside a typed array is ignored, as \<open>xs[i := v]\<close> is.
\<close>

definition getComponent :: "bufferAttribute \<Rightarrow> int \<Rightarrow> nat \<Rightarrow> real option" where
  "getComponent a index c =
     (if 0 \<le> index \<and> nat index * itemSize a + c < length (array a)
      then Some (array a ! (nat index * itemSize a + c)) else None)"

definition getX :: "bufferAttribute \<Rightarrow> int \<Rightarrow> real option" where
  "getX a index = getComponent a index 0"

definition getY :: "bufferAttribute \<Rightarrow> int \<Rightarrow> real option" where
  "getY a index = getComponent a index 1"

definition getZ :: "bufferAttribute \<Rightarrow> int \<Rightarrow> real option" where
  "getZ a index = getComponent a index 2"

definition setX :: "bufferAttribute \<Rightarrow> nat \<Rightarrow> real \<Rightarrow> bufferAttribute" where
  "setX a index v = a\<lparr>array := (array a)[index * itemSize a := v]\<rparr>"

definition setY :: "bufferAttribute \<Rightarrow> nat \<Rightarrow> real \<Rightarrow> bufferAttribute" where
  "setY a index v = a\<lparr>array := (array a)[index * itemSize a + 1 := v]\<rparr>"

record bufferGeometry =
  attr_position :: "bufferAttribute option"
  attr_uv :: "bufferAttribute option"

record object3D =
  geometry :: "bufferGeometry option"
  position :: Vector3
  rotation :: Vector3
  scale :: Vector3
  castShadow :: bool
  receiveShadow :: bool

definition Mesh :: "bufferGeometry \<Rightarrow> object3D" where
  \<comment> \<open>a new mesh has the default transform of three.js\<close>
  "Mesh g = \<lparr>geometry = Some g, position = Vector3 0 0 0, rotation = Vector3 0 0 0,
             scale = Vector3 1 1 1, castShadow = False, receiveShadow = False\<rparr>"

section \<open>Terrain generation\<close>

definition vertexX :: "nat \<Rightarrow> real" where
  \<comment> \<open>Modelled from the spec: the plane geometry of three.js is not part of the repository;
      grid column \<open>i\<close> maps linearly onto \<open>[-terrainWidth/2, terrainWidth/2]\<close>.\<close>
  "vertexX i =
     sub64 (mul64 (real i) (div64 terrainWidth (sub64 (real worldWidth) 1)))
       (div64 terrainWidth 2)"

definition vertexZ :: "nat \<Rightarrow> real" where
  \<comment> \<open>Modelled from the spec: grid row \<open>j\<close> maps linearly onto
      \<open>[-terrainDepth/2, terrainDepth/2]\<close>.\<close>
  "vertexZ j =
     sub64 (mul64 (real j) (div64 terrainDepth (sub64 (real worldDepth) 1)))
       (div64 terrainDepth 2)"

definition PlaneGeometry :: bufferGeometry where
  \<comment> \<open>Modelled from the spec: \<^verbatim>\<open>new THREE.PlaneGeometry(terrainWidth, terrainDepth,
      worldWidth - 1, worldDepth - 1)\<close> after \<^verbatim>\<open>rotateX(-Math.PI / 2)\<close>: one vertex per grid
      point, row by row, flat on the XZ plane.\<close>
  "PlaneGeometry =
     \<lparr>attr_position = Some \<lparr>array = concat (map (\<lambda>k. [vertexX (k mod worldWidth), 0,
                                   vertexZ (k div worldWidth)]) [0..<size_c]), itemSize = 3\<rparr>,
      attr_uv = Some \<lparr>array = concat (map (\<lambda>k. [real (k mod worldWidth) / (real worldWidth - 1),
                                   1 - real (k div worldWidth) / (real worldDepth - 1)])
                                   [0..<size_c]), itemSize = 2\<rparr>\<rparr>"

function createTerrain_loop ::
  "(real \<Rightarrow> real \<Rightarrow> real \<Rightarrow> real) \<Rightarrow> nat \<Rightarrow> nat \<Rightarrow> nat list \<Rightarrow> real list \<Rightarrow> nat list \<times> real list"
where
  "createTerrain_loop noise i j data vertices =
     (if i < size_c then
        let x = real (i mod worldWidth) * noiseScale;
            z = real (i div worldWidth) * noiseScale;
            data' = data[i := toUint8 ((noise x z 0 * 0.5 + 0.5) * 128)];
            vertices' = vertices[j + 1 := real (data' ! i) * (heightScale / 128)]
        in createTerrain_loop noise (i + 1) (j + 3) data' vertices'
      else (data, vertices))"
  by pat_completeness auto
termination
  by (relation "measure (\<lambda>(noise, i, j, data, vertices). size_c - i)") auto

text \<open>
  The module-level variables the functions share. Lights, camera and vehicle, which no
  property below mentions, are left out of \<open>scene\<close>.
\<close>

record game =
  terrainMesh :: "object3D option"
  data :: "nat list"
  roadMeshes :: "object3D list"
  treeModel :: "object3D option"
  scene :: "object3D list"

definition init_game :: "object3D option \<Rightarrow> game" where
  \<comment> \<open>the globals when \<^verbatim>\<open>init\<close> has loaded the assets: \<^verbatim>\<open>data\<close> is a zero-filled
      \<^verbatim>\<open>Uint8Array(size)\<close>\<close>
  "init_game loadedTreeModel =
     \<lparr>terrainMesh = None, data = replicate size_c 0, roadMeshes = [],
      treeModel = loadedTreeModel, scene = []\<rparr>"

definition createTerrain :: "(real \<Rightarrow> real \<Rightarrow> real \<Rightarrow> real) \<Rightarrow> game \<Rightarrow> game" where
  "createTerrain noise g =
     (let geometry = PlaneGeometry;
          vertices = (case attr_position geometry of Some p \<Rightarrow> array p | None \<Rightarrow> []);
          (data', vertices') = createTerrain_loop noise 0 0 (data g) vertices;
          geometry' = geometry\<lparr>attr_position := Some \<lparr>array = vertices', itemSize = 3\<rparr>\<rparr>;
          mesh = (Mesh geometry')\<lparr>receiveShadow := True\<rparr>
      in g\<lparr>terrainMesh := Some mesh, data := data', scene := scene g @ [mesh]\<rparr>)"

section \<open>Height query\<close>

definition terrainReady :: "game \<Rightarrow> bool" where
  \<comment> \<open>the negation of the guard
      \<^verbatim>\<open>!terrainMesh || !terrainMesh.geometry || !terrainMesh.geometry.attributes.position\<close>\<close>
  "terrainReady g =
     (case terrainMesh g of None \<Rightarrow> False
      | Some m \<Rightarrow> (case geometry m of None \<Rightarrow> False
          | Some g \<Rightarrow> (case attr_position g of None \<Rightarrow> False | Some p \<Rightarrow> True)))"

definition bilinear :: "real \<Rightarrow> real \<Rightarrow> real \<Rightarrow> real \<Rightarrow> real \<Rightarrow> real \<Rightarrow> real" where
  \<comment> \<open>the expression assigned to \<^verbatim>\<open>interpolatedHeight\<close>\<close>
  "bilinear u v y00 y10 y01 y11 =
     add64 (add64 (add64 (mul64 (mul64 (sub64 1 u) (sub64 1 v)) y00)
                         (mul64 (mul64 u (sub64 1 v)) y10))
                  (mul64 (mul64 (sub64 1 u) v) y01))
           (mul64 (mul64 u v) y11)"

definition getTerrainHeight :: "game \<Rightarrow> real \<Rightarrow> real \<Rightarrow> real option" where
  \<comment> \<open>\<open>None\<close>: one of the four corner reads fell outside the vertex buffer\<close>
  "getTerrainHeight g x z =
     (case terrainMesh g of None \<Rightarrow> Some 0
      | Some m \<Rightarrow> (case geometry m of None \<Rightarrow> Some 0
      | Some g \<Rightarrow> (case attr_position g of None \<Rightarrow> Some 0
      | Some pos \<Rightarrow>
         (let localX = add64 x (div64 terrainWidth 2);
              localZ = add64 z (div64 terrainDepth 2);
              gridX = \<lfloor>div64 localX (div64 terrainWidth (sub64 (real worldWidth) 1))\<rfloor>;
              gridZ = \<lfloor>div64 localZ (div64 terrainDepth (sub64 (real worldDepth) 1))\<rfloor>;
              clampedGridX = max 0 (min (int worldWidth - 2) gridX);
              clampedGridZ = max 0 (min (int worldDepth - 2) gridZ);
              p00Index = clampedGridZ * int worldWidth + clampedGridX;
              p10Index = clampedGridZ * int worldWidth + clampedGridX + 1;
              p01Index = (clampedGridZ + 1) * int worldWidth + clampedGridX;
              p11Index = (clampedGridZ + 1) * int worldWidth + clampedGridX + 1
          in case (getY pos p00Index, getY pos p10Index, getY pos p01Index, getY pos p11Index) of
               (Some y00, Some y10, Some y01, Some y11) \<Rightarrow>
                 (let u = div64 (js_rem localX (div64 terrainWidth (sub64 (real worldWidth) 1)))
                            (div64 terrainWidth (sub64 (real worldWidth) 1));
                      v = div64 (js_rem localZ (div64 terrainDepth (sub64 (real worldDepth) 1)))
                            (div64 terrainDepth (sub64 (real worldDepth) 1))
                  in Some (bilinear u v y00 y10 y01 y11))
             | _ \<Rightarrow> None))))"

text \<open>
  Names for what the body of \<open>getTerrainHeight\<close> computes on the way: the buffer it
  reads, the clamped cell, the four corner indices and the two fractional offsets.
\<close>

definition terrainPosition :: "game \<Rightarrow> bufferAttribute option" where
  \<comment> \<open>\<^verbatim>\<open>terrainMesh.geometry.attributes.position\<close>, when all three exist\<close>
  "terrainPosition g =
     (case terrainMesh g of None \<Rightarrow> None
      | Some m \<Rightarrow> (case geometry m of None \<Rightarrow> None | Some geo \<Rightarrow> attr_position geo))"

definition vertexHeight :: "game \<Rightarrow> int \<Rightarrow> real option" where
  \<comment> \<open>\<^verbatim>\<open>terrainMesh.geometry.attributes.position.getY(index)\<close>\<close>
  "vertexHeight g index =
     (case terrainPosition g of None \<Rightarrow> None | Some pos \<Rightarrow> getY pos index)"

definition gridBuffer :: "bufferAttribute \<Rightarrow> bool" where
  \<comment> \<open>a position buffer of \<open>worldWidth * worldDepth\<close> vertices, three numbers each\<close>
  "gridBuffer pos = (itemSize pos = 3 \<and> length (array pos) = 3 * size_c)"

definition clampedGridX :: "real \<Rightarrow> int" where
  "clampedGridX x =
     max 0 (min (int worldWidth - 2)
       \<lfloor>div64 (add64 x (div64 terrainWidth 2))
          (div64 terrainWidth (sub64 (real worldWidth) 1))\<rfloor>)"

definition clampedGridZ :: "real \<Rightarrow> int" where
  "clampedGridZ z =
     max 0 (min (int worldDepth - 2)
       \<lfloor>div64 (add64 z (div64 terrainDepth 2))
          (div64 terrainDepth (sub64 (real worldDepth) 1))\<rfloor>)"

definition p00Index :: "real \<Rightarrow> real \<Rightarrow> int" where
  "p00Index x z = clampedGridZ z * int worldWidth + clampedGridX x"

definition p10Index :: "real \<Rightarrow> real \<Rightarrow> int" where
  "p10Index x z = clampedGridZ z * int worldWidth + clampedGridX x + 1"

definition p01Index :: "real \<Rightarrow> real \<Rightarrow> int" where
  "p01Index x z = (clampedGridZ z + 1) * int worldWidth + clampedGridX x"

definition p11Index :: "real \<Rightarrow> real \<Rightarrow> int" where
  "p11Index x z = (clampedGridZ z + 1) * int worldWidth + clampedGridX x + 1"

definition offset_u :: "real \<Rightarrow> real" where
  "offset_u x =
     div64 (js_rem (add64 x (div64 terrainWidth 2))
              (div64 terrainWidth (sub64 (real worldWidth) 1)))
       (div64 terrainWidth (sub64 (real worldWidth) 1))"

definition offset_v :: "real \<Rightarrow> real" where
  "offset_v z =
     div64 (js_rem (add64 z (div64 terrainDepth 2))
              (div64 terrainDepth (sub64 (real worldDepth) 1)))
       (div64 terrainDepth (sub64 (real worldDepth) 1))"

text \<open>Three noise functions with values in \<open>[-1, 1]\<close>, to run the code on.\<close>

definition flatNoise :: "real \<Rightarrow> real \<Rightarrow> real \<Rightarrow> real" where
  "flatNoise x y z = 1 / 100"

definition stepNoise :: "real \<Rightarrow> real \<Rightarrow> real \<Rightarrow> real" where
  \<comment> \<open>1 on the first grid column, -1 on every other\<close>
  "stepNoise x y z = (if x < 1 / 200 then 1 else - 1)"

definition spikeNoise :: "real \<Rightarrow> real \<Rightarrow> real \<Rightarrow> real" where
  \<comment> \<open>1 on the grid column 5, -1 on every other\<close>
  "spikeNoise x y z = (if 9 / 200 < x \<and> x < 11 / 200 then 1 else - 1)"

section \<open>Road generation\<close>

text \<open>
  The curve and tube classes of three.js are not part of the repository. What
  \<^verbatim>\<open>generateRoads\<close> needs of them is a parameter: the vertex that the sweep puts at ring
  \<open>i\<close>, position \<open>j\<close> of the ring, for given control points, radius and segment counts, and
  the arc length of the curve through given control points.
\<close>

record threeLib =
  tubeVertex :: "Vector3 list \<Rightarrow> real \<Rightarrow> nat \<Rightarrow> nat \<Rightarrow> nat \<Rightarrow> nat \<Rightarrow> Vector3"
  getLength :: "Vector3 list \<Rightarrow> real"

definition TubeGeometry :: "threeLib \<Rightarrow> Vector3 list \<Rightarrow> nat \<Rightarrow> real \<Rightarrow> nat \<Rightarrow> bufferGeometry" where
  \<comment> \<open>Modelled from the spec: an open tube swept along the curve has one ring of
      \<open>radialSegments + 1\<close> vertices at each of \<open>tubularSegments + 1\<close> parameter steps, each
      vertex with a position and a texture coordinate.\<close>
  "TubeGeometry lib points tubularSegments radius radialSegments =
     \<lparr>attr_position = Some \<lparr>array = concat (map (\<lambda>k.
          let P = tubeVertex lib points radius tubularSegments radialSegments
                    (k div (radialSegments + 1)) (k mod (radialSegments + 1))
          in [vec_x P, vec_y P, vec_z P])
          [0..<(tubularSegments + 1) * (radialSegments + 1)]), itemSize = 3\<rparr>,
      attr_uv = Some \<lparr>array = concat (map (\<lambda>k.
          [real (k div (radialSegments + 1)) / real tubularSegments,
           real (k mod (radialSegments + 1)) / real radialSegments])
          [0..<(tubularSegments + 1) * (radialSegments + 1)]), itemSize = 2\<rparr>\<rparr>"

definition roadStartZ :: real where
  "roadStartZ = - terrainDepth / 2"

definition roadSegmentLength :: real where
  "roadSegmentLength = terrainDepth / real roadSegments"

function plan_loop :: "nat \<Rightarrow> Vector3 list \<Rightarrow> Vector3 list" where
  "plan_loop i pathPoints =
     (if i \<le> roadSegments then
        let z = roadStartZ + real i * roadSegmentLength;
            x = sin (z * 0.05) * 5
        in plan_loop (i + 1) (pathPoints @ [Vector3 x 0 z])
      else pathPoints)"
  by pat_completeness auto
termination
  by (relation "measure (\<lambda>(i, pathPoints). Suc roadSegments - i)") auto

function uv_loop :: "bufferAttribute \<Rightarrow> bufferAttribute \<Rightarrow> real \<Rightarrow> nat \<Rightarrow> bufferAttribute option"
where
  "uv_loop uvAttribute positionAttribute roadLength i =
     (if i < count uvAttribute then
        (case (getX positionAttribute (int i), getZ positionAttribute (int i)) of
           (Some xValue, Some zValue) \<Rightarrow>
             uv_loop (setY (setX uvAttribute i ((xValue / (roadWidth / 2) + 1) / 2))
                        i (zValue / roadLength * roadTextureRepeat))
               positionAttribute roadLength (i + 1)
         | _ \<Rightarrow> None)
      else Some uvAttribute)"
  by pat_completeness auto
termination
  by (relation "measure (\<lambda>(uvAttribute, positionAttribute, roadLength, i).
        count uvAttribute - i)")
     (auto simp: count_def setX_def setY_def)

function conform_loop :: "game \<Rightarrow> nat \<Rightarrow> Vector3 list \<Rightarrow> Vector3 list option" where
  "conform_loop g i pathPoints =
     (if i < length pathPoints then
        (let p = pathPoints ! i
         in case getTerrainHeight g (vec_x p) (vec_z p) of
              Some h \<Rightarrow> conform_loop g (i + 1)
                          (pathPoints[i := Vector3 (vec_x p) (h + 0.1) (vec_z p)])
            | None \<Rightarrow> None)
      else Some pathPoints)"
  by pat_completeness auto
termination
  by (relation "measure (\<lambda>(g, i, pathPoints). length pathPoints - i)") auto

definition generateRoads :: "threeLib \<Rightarrow> game \<Rightarrow> game option" where
  \<comment> \<open>\<open>None\<close>: a read outside a buffer, which the source would turn into \<^verbatim>\<open>NaN\<close>\<close>
  "generateRoads lib g =
     (let pathPoints = plan_loop 0 [];
          divisions = roadSegments * 2;
          tubeGeometry = TubeGeometry lib pathPoints divisions (roadWidth / 2) 8;
          roadLength = getLength lib pathPoints
      in case (attr_uv tubeGeometry, attr_position tubeGeometry) of
           (Some uvAttribute, Some positionAttribute) \<Rightarrow>
             (case uv_loop uvAttribute positionAttribute roadLength 0 of
                None \<Rightarrow> None
              | Some uvAttribute' \<Rightarrow>
                  (let roadMesh = (Mesh (tubeGeometry\<lparr>attr_uv := Some uvAttribute'\<rparr>))
                         \<lparr>receiveShadow := True, castShadow := True\<rparr>;
                       roadMesh' = roadMesh\<lparr>position :=
                         Vector3 (vec_x (position roadMesh)) 0.5 (vec_z (position roadMesh))\<rparr>
                   in case conform_loop g 0 pathPoints of
                        None \<Rightarrow> None
                      | Some pathPoints' \<Rightarrow>
                          (let updatedTubeGeometry =
                                 TubeGeometry lib pathPoints' divisions (roadWidth / 2) 8;
                               updatedTubeGeometry' =
                                 updatedTubeGeometry\<lparr>attr_uv := Some uvAttribute'\<rparr>;
                               roadMesh'' = roadMesh'\<lparr>geometry := Some updatedTubeGeometry'\<rparr>
                           in Some (g\<lparr>roadMeshes := roadMeshes g @ [roadMesh''],
                                      scene := scene g @ [roadMesh'']\<rparr>))))
         | _ \<Rightarrow> None)"

section \<open>Tree population\<close>

definition numTrees :: nat where "numTrees = 500"
definition treeScale :: real where "treeScale = 5"

text \<open>
  \<^verbatim>\<open>Math.random()\<close> is a sequence \<open>random\<close> of numbers and a position \<open>k\<close> in it. The
  rejection loop has no bound: it is a partial function, and \<open>None\<close> is the run that never
  leaves it.
\<close>

partial_function (option) sample_loop :: "(nat \<Rightarrow> real) \<Rightarrow> nat \<Rightarrow> (real \<times> real \<times> nat) option" where
  "sample_loop random k =
     (let x = (random k - 0.5) * terrainWidth * 0.9;
          z = (random (k + 1) - 0.5) * terrainDepth * 0.9
      in if \<bar>x\<bar> < roadWidth * 1.5 \<and> \<bar>z\<bar> < terrainDepth * 0.5
         then sample_loop random (k + 2)
         else Some (x, z, k + 2))"

function populateTrees_loop ::
  "game \<Rightarrow> object3D \<Rightarrow> (nat \<Rightarrow> real) \<Rightarrow> nat \<Rightarrow> nat \<Rightarrow> object3D list \<Rightarrow> (object3D list \<times> nat) option"
where
  "populateTrees_loop g model random i k clones =
     (if i < numTrees then
        (case sample_loop random k of
           None \<Rightarrow> None
         | Some (x, z, k') \<Rightarrow>
             (case getTerrainHeight g x z of
                None \<Rightarrow> None
              | Some y \<Rightarrow>
                  (let clone = model\<lparr>position := Vector3 x y z,
                                     scale := Vector3 treeScale treeScale treeScale\<rparr>;
                       clone' = clone\<lparr>rotation := Vector3 (vec_x (rotation clone))
                                  (random k' * pi * 2) (vec_z (rotation clone))\<rparr>;
                       clone'' = (if geometry clone' \<noteq> None
                                  then clone'\<lparr>castShadow := True, receiveShadow := True\<rparr>
                                  else clone')
                   in populateTrees_loop g model random (i + 1) (k' + 1) (clones @ [clone'']))))
      else Some (clones, k))"
  by pat_completeness auto
termination
  by (relation "measure (\<lambda>(g, model, random, i, k, clones). numTrees - i)") auto

definition populateTrees :: "game \<Rightarrow> (nat \<Rightarrow> real) \<Rightarrow> nat \<Rightarrow> (game \<times> nat) option" where
  \<comment> \<open>\<open>None\<close>: the run does not end, or a height was read outside the vertex buffer\<close>
  "populateTrees g random k =
     (case treeModel g of
        None \<Rightarrow> Some (g, k)
      | Some model \<Rightarrow>
          (case populateTrees_loop g model random 0 k [] of
             None \<Rightarrow> None
           | Some (clones, k') \<Rightarrow> Some (g\<lparr>scene := scene g @ clones\<rparr>, k')))"

section \<open>Names for intermediate values, and inputs to run the code on\<close>

definition plannedPath :: "Vector3 list" where
  \<comment> \<open>\<^verbatim>\<open>pathPoints\<close> after the first loop of \<^verbatim>\<open>generateRoads\<close>\<close>
  "plannedPath = plan_loop 0 []"

definition plannedTube :: "threeLib \<Rightarrow> bufferGeometry" where
  \<comment> \<open>\<^verbatim>\<open>tubeGeometry\<close>, swept along the flat path\<close>
  "plannedTube lib = TubeGeometry lib plannedPath (roadSegments * 2) (roadWidth / 2) 8"

definition treeOk :: "game \<Rightarrow> object3D \<Rightarrow> bool" where
  \<comment> \<open>what is said of a placed tree: outside the band around the road, inside the sampling
      margin, on the terrain, uniformly scaled, with a yaw in \<open>[0, 2\<pi>)\<close>\<close>
  "treeOk g t =
     (\<not> (\<bar>vec_x (position t)\<bar> < 18 \<and> \<bar>vec_z (position t)\<bar> < 400)
      \<and> - (0.45 * terrainWidth) \<le> vec_x (position t) \<and> vec_x (position t) \<le> 0.45 * terrainWidth
      \<and> - (0.45 * terrainDepth) \<le> vec_z (position t) \<and> vec_z (position t) \<le> 0.45 * terrainDepth
      \<and> getTerrainHeight g (vec_x (position t)) (vec_z (position t)) = Some (vec_y (position t))
      \<and> scale t = Vector3 treeScale treeScale treeScale
      \<and> 0 \<le> vec_y (rotation t) \<and> vec_y (rotation t) < 2 * pi)"

definition flatLib :: threeLib where
  "flatLib = \<lparr>tubeVertex = (\<lambda>points radius tubularSegments radialSegments i j. Vector3 0 0 0),
              getLength = (\<lambda>points. 800)\<rparr>"

definition plainModel :: object3D where
  "plainModel = \<lparr>geometry = None, position = Vector3 0 0 0, rotation = Vector3 0 0 0,
                 scale = Vector3 1 1 1, castShadow = False, receiveShadow = False\<rparr>"

definition constRandom :: "nat \<Rightarrow> real" where
  "constRandom n = 9 / 10"

section \<open>Rounding a given number\<close>

lemma fl64_zero: "fl64 0 = 0"
  by (simp add: fl64_def)

lemma fl64_scaled:
  assumes "2 ^ 52 \<le> \<bar>r\<bar> * 2 ^ m" and "\<bar>r\<bar> * 2 ^ m < 2 ^ 53"
  shows "fl64 r = of_int (roundEven (r * 2 ^ m)) / 2 ^ m"
proof -
  have r0: "r \<noteq> 0" using assms(1) by auto
  then have rp: "0 < \<bar>r\<bar>" by simp
  have p: "(2::real) powr of_int (52 - int m) = 2 ^ 52 / 2 ^ m"
    by (simp add: powr_diff powr_realpow)
  have p1: "(2::real) powr of_int (52 - int m + 1) = 2 ^ 53 / 2 ^ m"
    by (simp add: powr_diff powr_add powr_realpow)
  have lo: "2 powr of_int (52 - int m) \<le> \<bar>r\<bar>"
    using assms(1) by (simp only: p) (simp add: field_simps)
  have hi: "\<bar>r\<bar> < 2 powr of_int (52 - int m + 1)"
    using assms(2) by (simp only: p1) (simp add: field_simps)
  have e: "\<lfloor>log 2 \<bar>r\<bar>\<rfloor> = 52 - int m"
    using lo hi rp by (simp add: floor_log_eq_powr_iff)
  have s: "(2::real) powr (- real m) = 1 / 2 ^ m"
    by (simp add: powr_minus powr_realpow field_simps)
  show ?thesis
    using r0 by (simp add: fl64_def e Let_def s)
qed

section \<open>Facts about the loops and the buffers\<close>

lemma concat3_length: "length (concat (map (\<lambda>k. [a k, b k, c k]) xs)) = 3 * length xs"
  by (induction xs) auto

declare createTerrain_loop.simps [simp del]

lemma loop_step:
  "i < size_c \<Longrightarrow>
   createTerrain_loop noise i j d v =
     createTerrain_loop noise (i + 1) (j + 3)
       (d[i := toUint8 ((noise (real (i mod worldWidth) * noiseScale)
                           (real (i div worldWidth) * noiseScale) 0 * 0.5 + 0.5) * 128)])
       (v[j + 1 := real ((d[i := toUint8 ((noise (real (i mod worldWidth) * noiseScale)
                           (real (i div worldWidth) * noiseScale) 0 * 0.5 + 0.5) * 128)]) ! i)
                   * (heightScale / 128)])"
  by (subst createTerrain_loop.simps) (simp only: if_True Let_def)

lemma loop_stop:
  "\<not> i < size_c \<Longrightarrow> createTerrain_loop noise i j d v = (d, v)"
  by (subst createTerrain_loop.simps) (simp only: if_False)

lemma loop_length:
  "length (fst (createTerrain_loop noise i j d v)) = length d \<and>
   length (snd (createTerrain_loop noise i j d v)) = length v"
proof (induction noise i j d v rule: createTerrain_loop.induct)
  case (1 noise i j d v)
  show ?case
  proof (cases "i < size_c")
    case True
    show ?thesis
      using "1.IH" [OF True refl refl refl refl] by (simp add: loop_step [OF True])
  next
    case False
    then show ?thesis by (simp add: loop_stop)
  qed
qed

lemma loop_data_nth:
  "length d = size_c \<Longrightarrow> k < size_c \<Longrightarrow>
   fst (createTerrain_loop noise i j d v) ! k =
     (if i \<le> k
      then toUint8 ((noise (real (k mod worldWidth) * noiseScale)
                      (real (k div worldWidth) * noiseScale) 0 * 0.5 + 0.5) * 128)
      else d ! k)"
proof (induction noise i j d v rule: createTerrain_loop.induct)
  case (1 noise i j d v)
  show ?case
  proof (cases "i < size_c")
    case True
    show ?thesis
      using "1.IH" [OF True refl refl refl refl] "1.prems" True
      by (simp add: loop_step [OF True] nth_list_update) (metis le_antisym not_less_eq_eq)
  next
    case False
    then show ?thesis using "1.prems" by (simp add: loop_stop)
  qed
qed

lemma loop_vertices_nth:
  "j = 3 * i \<Longrightarrow> length d = size_c \<Longrightarrow> length v = 3 * size_c \<Longrightarrow> k < size_c \<Longrightarrow>
   snd (createTerrain_loop noise i j d v) ! (3 * k + 1) =
     (if i \<le> k
      then real (toUint8 ((noise (real (k mod worldWidth) * noiseScale)
                      (real (k div worldWidth) * noiseScale) 0 * 0.5 + 0.5) * 128))
           * (heightScale / 128)
      else v ! (3 * k + 1))"
proof (induction noise i j d v rule: createTerrain_loop.induct)
  case (1 noise i j d v)
  show ?case
  proof (cases "i < size_c")
    case True
    have j: "j + 3 = 3 * (i + 1)" using "1.prems" by simp
    show ?thesis
      using "1.IH" [OF True refl refl refl refl j] "1.prems" True
      by (simp add: loop_step [OF True] nth_list_update) (metis le_antisym not_less_eq_eq)
  next
    case False
    then show ?thesis using "1.prems" by (simp add: loop_stop)
  qed
qed

section \<open>The cell that a query reads\<close>

lemma getTerrainHeight_unfold:
  "getTerrainHeight g x z =
     (case terrainPosition g of
        None \<Rightarrow> Some 0
      | Some pos \<Rightarrow>
          (case (getY pos (p00Index x z), getY pos (p10Index x z),
                 getY pos (p01Index x z), getY pos (p11Index x z)) of
             (Some y00, Some y10, Some y01, Some y11) \<Rightarrow>
               Some (bilinear (offset_u x) (offset_v z) y00 y10 y01 y11)
           | _ \<Rightarrow> None))"
  by (simp add: getTerrainHeight_def terrainPosition_def p00Index_def p10Index_def
        p01Index_def p11Index_def clampedGridX_def clampedGridZ_def offset_u_def offset_v_def
        Let_def split: option.splits)

lemma clampedGridX_range: "0 \<le> clampedGridX x \<and> clampedGridX x \<le> int worldWidth - 2"
  by (simp add: clampedGridX_def worldWidth_def resolution_def)

lemma clampedGridZ_range: "0 \<le> clampedGridZ z \<and> clampedGridZ z \<le> int worldDepth - 2"
  by (simp add: clampedGridZ_def worldDepth_def resolution_def)

lemma corner_range:
  "0 \<le> p00Index x z \<and> p00Index x z < int size_c"
  "0 \<le> p10Index x z \<and> p10Index x z < int size_c"
  "0 \<le> p01Index x z \<and> p01Index x z < int size_c"
  "0 \<le> p11Index x z \<and> p11Index x z < int size_c"
  using clampedGridX_range [of x] clampedGridZ_range [of z]
  by (simp_all add: p00Index_def p10Index_def p01Index_def p11Index_def size_c_def
        worldWidth_def worldDepth_def resolution_def)

lemma getY_grid:
  "gridBuffer pos \<Longrightarrow> 0 \<le> k \<Longrightarrow> k < int size_c \<Longrightarrow>
   getY pos k = Some (array pos ! (3 * nat k + 1))"
  by (auto simp add: getY_def getComponent_def gridBuffer_def mult.commute)

lemma getTerrainHeight_grid:
  assumes "terrainPosition g = Some pos" "gridBuffer pos"
  shows "getTerrainHeight g x z =
     Some (bilinear (offset_u x) (offset_v z)
            (array pos ! (3 * nat (p00Index x z) + 1)) (array pos ! (3 * nat (p10Index x z) + 1))
            (array pos ! (3 * nat (p01Index x z) + 1)) (array pos ! (3 * nat (p11Index x z) + 1)))"
  using assms corner_range [of x z]
  by (simp add: getTerrainHeight_unfold getY_grid)

lemma createTerrain_position:
  "\<exists>pos. terrainPosition (createTerrain noise g) = Some pos \<and> gridBuffer pos"
proof -
  obtain d v where dv: "createTerrain_loop noise 0 0 (data g)
      (concat (map (\<lambda>k. [vertexX (k mod worldWidth), 0, vertexZ (k div worldWidth)]) [0..<size_c])) = (d, v)"
    by (cases "createTerrain_loop noise 0 0 (data g)
      (concat (map (\<lambda>k. [vertexX (k mod worldWidth), 0, vertexZ (k div worldWidth)]) [0..<size_c]))")
  have "length v = 3 * size_c"
    using loop_length [of noise 0 0 "data g"
      "concat (map (\<lambda>k. [vertexX (k mod worldWidth), 0, vertexZ (k div worldWidth)]) [0..<size_c])"]
    by (simp only: dv snd_conv concat3_length length_upt)
  then show ?thesis
    by (simp add: createTerrain_def terrainPosition_def PlaneGeometry_def Mesh_def gridBuffer_def
      Let_def dv)
qed

lemma createTerrain_data:
  assumes "length (data g) = size_c"
  shows "length (data (createTerrain noise g)) = size_c"
    and "k < size_c \<Longrightarrow> data (createTerrain noise g) ! k =
      toUint8 ((noise (real (k mod worldWidth) * noiseScale)
                  (real (k div worldWidth) * noiseScale) 0 * 0.5 + 0.5) * 128)"
proof -
  let ?v = "concat (map (\<lambda>k. [vertexX (k mod worldWidth), 0, vertexZ (k div worldWidth)]) [0..<size_c])"
  have d: "data (createTerrain noise g) = fst (createTerrain_loop noise 0 0 (data g) ?v)"
    by (simp add: createTerrain_def PlaneGeometry_def Let_def split: prod.splits)
  show "length (data (createTerrain noise g)) = size_c"
    using assms loop_length [of noise 0 0 "data g" ?v] by (simp only: d)
  show "k < size_c \<Longrightarrow> data (createTerrain noise g) ! k =
      toUint8 ((noise (real (k mod worldWidth) * noiseScale)
                  (real (k div worldWidth) * noiseScale) 0 * 0.5 + 0.5) * 128)"
    using loop_data_nth [OF assms, of k noise 0 0 ?v] by (simp only: d) simp
qed

lemma createTerrain_height:
  assumes "length (data g) = size_c" "k < size_c"
  shows "vertexHeight (createTerrain noise g) (int k) =
      Some (real (toUint8 ((noise (real (k mod worldWidth) * noiseScale)
                  (real (k div worldWidth) * noiseScale) 0 * 0.5 + 0.5) * 128))
            * (heightScale / 128))"
proof -
  let ?v = "concat (map (\<lambda>k. [vertexX (k mod worldWidth), 0, vertexZ (k div worldWidth)]) [0..<size_c])"
  obtain pos where pos: "terrainPosition (createTerrain noise g) = Some pos" "gridBuffer pos"
    using createTerrain_position by blast
  have a: "array pos = snd (createTerrain_loop noise 0 0 (data g) ?v)"
    using pos(1)
    by (auto simp add: createTerrain_def terrainPosition_def PlaneGeometry_def Mesh_def Let_def
        split: prod.splits)
  have "length ?v = 3 * size_c" by (simp add: concat3_length)
  then have "array pos ! (3 * k + 1) =
      real (toUint8 ((noise (real (k mod worldWidth) * noiseScale)
                  (real (k div worldWidth) * noiseScale) 0 * 0.5 + 0.5) * 128))
            * (heightScale / 128)"
    using loop_vertices_nth [of 0 0 "data g" ?v k noise] assms by (simp only: a) simp
  then show ?thesis
    using pos assms(2) by (simp add: vertexHeight_def getY_grid)
qed

lemma getY_grid_nat:
  "gridBuffer pos \<Longrightarrow> k < size_c \<Longrightarrow> getY pos (int k) = Some (array pos ! (3 * k + 1))"
  using getY_grid [of pos "int k"] by simp

lemma toUint8_unit:
  assumes "- 1 \<le> n" "n \<le> 1"
  shows "toUint8 ((n * 0.5 + 0.5) * 128) = nat \<lfloor>(n * 0.5 + 0.5) * 128\<rfloor>"
    and "toUint8 ((n * 0.5 + 0.5) * 128) \<le> 128"
proof -
  have lo: "0 \<le> (n * 0.5 + 0.5) * 128" using assms by simp
  have hi: "(n * 0.5 + 0.5) * 128 \<le> 128" using assms by simp
  have f0: "0 \<le> \<lfloor>(n * 0.5 + 0.5) * 128\<rfloor>" using lo by (simp only: zero_le_floor)
  have f1: "\<lfloor>(n * 0.5 + 0.5) * 128\<rfloor> \<le> 128"
    using hi by (metis floor_mono floor_numeral)
  have t: "js_trunc ((n * 0.5 + 0.5) * 128) = \<lfloor>(n * 0.5 + 0.5) * 128\<rfloor>"
    using lo by (simp only: js_trunc_def if_True)
  show "toUint8 ((n * 0.5 + 0.5) * 128) = nat \<lfloor>(n * 0.5 + 0.5) * 128\<rfloor>"
    using f0 f1 by (simp only: toUint8_def t) simp
  then show "toUint8 ((n * 0.5 + 0.5) * 128) \<le> 128"
    using f0 f1 by linarith
qed

lemma grid_index:
  "i < worldWidth \<Longrightarrow> j < worldDepth \<Longrightarrow>
   j * worldWidth + i < size_c \<and> (j * worldWidth + i) mod worldWidth = i
   \<and> (j * worldWidth + i) div worldWidth = j"
proof -
  assume i: "i < worldWidth" and j: "j < worldDepth"
  have "j * worldWidth + i < (j + 1) * worldWidth" using i by simp
  also have "\<dots> \<le> worldDepth * worldWidth" using j by (simp only: mult_le_mono1 Suc_leI Suc_eq_plus1 [symmetric])
  finally have "j * worldWidth + i < size_c" by (simp add: size_c_def mult.commute)
  then show ?thesis using i by simp
qed

lemma createTerrain_ready: "terrainReady (createTerrain noise g)"
  by (simp add: terrainReady_def createTerrain_def Mesh_def PlaneGeometry_def Let_def
      split: prod.splits)

lemma getTerrainHeight_corners:
  "terrainReady g \<Longrightarrow>
   vertexHeight g (p00Index x z) = Some y00 \<Longrightarrow> vertexHeight g (p10Index x z) = Some y10 \<Longrightarrow>
   vertexHeight g (p01Index x z) = Some y01 \<Longrightarrow> vertexHeight g (p11Index x z) = Some y11 \<Longrightarrow>
   getTerrainHeight g x z = Some (bilinear (offset_u x) (offset_v z) y00 y10 y01 y11)"
  by (auto simp add: getTerrainHeight_unfold vertexHeight_def terrainReady_def terrainPosition_def
      split: option.splits)

lemma stepTerrain_height:
  "k < size_c \<Longrightarrow>
   vertexHeight (createTerrain stepNoise (init_game None)) (int k)
     = Some (if k mod worldWidth = 0 then 30 else 0)"
proof -
  assume k: "k < size_c"
  have l: "length (data (init_game None)) = size_c" by (simp add: init_game_def)
  show ?thesis
    by (simp add: createTerrain_height [OF l k] stepNoise_def noiseScale_def toUint8_def
        js_trunc_def heightScale_def)
qed

lemma createTerrain_height_data:
  assumes "length (data g) = size_c" "k < size_c"
  shows "vertexHeight (createTerrain noise g) (int k)
    = Some (real (data (createTerrain noise g) ! k) * (heightScale / 128))"
  by (simp only: createTerrain_height [OF assms] createTerrain_data(2) [OF assms])

lemma stepTerrain_query:
  "getTerrainHeight (createTerrain stepNoise (init_game None)) x z =
    Some (bilinear (offset_u x) (offset_v z)
      (if nat (p00Index x z) mod worldWidth = 0 then 30 else 0)
      (if nat (p10Index x z) mod worldWidth = 0 then 30 else 0)
      (if nat (p01Index x z) mod worldWidth = 0 then 30 else 0)
      (if nat (p11Index x z) mod worldWidth = 0 then 30 else 0))"
proof -
  have v: "vertexHeight (createTerrain stepNoise (init_game None)) p
      = Some (if nat p mod worldWidth = 0 then 30 else 0)"
    if "0 \<le> p \<and> p < int size_c" for p
  proof -
    have "nat p < size_c" using that by linarith
    from stepTerrain_height [OF this] that show ?thesis by simp
  qed
  show ?thesis
    by (rule getTerrainHeight_corners [OF createTerrain_ready]) (rule v, rule corner_range)+
qed

section \<open>The height query at given points, in the arithmetic of doubles\<close>

lemma cell64:
  "div64 terrainWidth 2 = 200" "div64 terrainDepth 2 = 400"
  "div64 terrainWidth (sub64 (real worldWidth) 1) = (7092282877748813 / 2251799813685248)"
  "div64 terrainDepth (sub64 (real worldDepth) 1) = (7092282877748813 / 1125899906842624)"
  by (simp_all add: div64_def sub64_def terrainWidth_def terrainDepth_def worldWidth_def
      worldDepth_def resolution_def fl64_scaled [where m = 45] fl64_scaled [where m = 44]
      fl64_scaled [where m = 46] fl64_scaled [where m = 51] fl64_scaled [where m = 50]
      roundEven_def Let_def)

lemma vertexX_5: "vertexX 5 = (- (3241394908971137 / 17592186044416))"
proof -
  have s1: "mul64 (real 5) (7092282877748813 / 2251799813685248) = (277042299912063 / 17592186044416)"
    by (simp add: mul64_def fl64_scaled [where m = 49] roundEven_def Let_def)
  have s2: "sub64 (277042299912063 / 17592186044416) 200 = (- (3241394908971137 / 17592186044416))"
    by (simp add: sub64_def fl64_scaled [where m = 45] roundEven_def Let_def)
  show ?thesis
    by (simp only: vertexX_def cell64 s1 s2)
qed

lemma vertexZ_27: "vertexZ 27 = (- (8089635157432239 / 35184372088832))"
proof -
  have s1: "mul64 (real 27) (7092282877748813 / 1125899906842624) = (5984113678100561 / 35184372088832)"
    by (simp add: mul64_def fl64_scaled [where m = 45] roundEven_def Let_def)
  have s2: "sub64 (5984113678100561 / 35184372088832) 400 = (- (8089635157432239 / 35184372088832))"
    by (simp add: sub64_def fl64_scaled [where m = 45] roundEven_def Let_def)
  show ?thesis
    by (simp only: vertexZ_def cell64 s1 s2)
qed

lemma cellX_m300:
  "clampedGridX (- 300) = 0"
  "offset_u (- 300) = (- (422212465065983 / 562949953421312))"
proof -
  have s1: "add64 (- 300) 200 = (- 100)"
    by (simp add: add64_def fl64_scaled [where m = 46] roundEven_def Let_def)
  have s2: "div64 (- 100) (7092282877748813 / 2251799813685248) = (- (8936830510563327 / 281474976710656))"
    by (simp add: div64_def fl64_scaled [where m = 48] roundEven_def Let_def)
  have "clampedGridX (- 300) = max 0 (min (int worldWidth - 2) \<lfloor>(- (8936830510563327 / 281474976710656)) :: real\<rfloor>)"
    by (simp only: clampedGridX_def cell64 s1 s2)
  then show "clampedGridX (- 300) = 0"
    by (simp add: worldWidth_def resolution_def)
  have s3: "js_rem (- 100) (7092282877748813 / 2251799813685248) = (- (5319212158311597 / 2251799813685248))"
    by (simp add: js_rem_def js_trunc_def)
  have s4: "div64 (- (5319212158311597 / 2251799813685248)) (7092282877748813 / 2251799813685248) = (- (422212465065983 / 562949953421312))"
    by (simp add: div64_def fl64_scaled [where m = 53] roundEven_def Let_def)
  show "offset_u (- 300) = (- (422212465065983 / 562949953421312))"
    by (simp only: offset_u_def cell64 s1 s3 s4)
qed

lemma cellX_m200:
  "clampedGridX (- 200) = 0"
  "offset_u (- 200) = 0"
proof -
  have s1: "add64 (- 200) 200 = 0"
    by (simp add: add64_def fl64_zero)
  have s2: "div64 0 (7092282877748813 / 2251799813685248) = 0"
    by (simp add: div64_def fl64_zero)
  have "clampedGridX (- 200) = max 0 (min (int worldWidth - 2) \<lfloor>0 :: real\<rfloor>)"
    by (simp only: clampedGridX_def cell64 s1 s2)
  then show "clampedGridX (- 200) = 0"
    by (simp add: worldWidth_def resolution_def)
  have s3: "js_rem 0 (7092282877748813 / 2251799813685248) = 0"
    by (simp add: js_rem_def js_trunc_def)
  have s4: "div64 0 (7092282877748813 / 2251799813685248) = 0"
    by (simp add: div64_def fl64_zero)
  show "offset_u (- 200) = 0"
    by (simp only: offset_u_def cell64 s1 s3 s4)
qed

lemma cellX_m210:
  "clampedGridX (- 210) = 0"
  "offset_u (- 210) = (- (197032483697459 / 1125899906842624))"
proof -
  have s1: "add64 (- 210) 200 = (- 10)"
    by (simp add: add64_def fl64_scaled [where m = 49] roundEven_def Let_def)
  have s2: "div64 (- 10) (7092282877748813 / 2251799813685248) = (- (3574732204225331 / 1125899906842624))"
    by (simp add: div64_def fl64_scaled [where m = 51] roundEven_def Let_def)
  have "clampedGridX (- 210) = max 0 (min (int worldWidth - 2) \<lfloor>(- (3574732204225331 / 1125899906842624)) :: real\<rfloor>)"
    by (simp only: clampedGridX_def cell64 s1 s2)
  then show "clampedGridX (- 210) = 0"
    by (simp add: worldWidth_def resolution_def)
  have s3: "js_rem (- 10) (7092282877748813 / 2251799813685248) = (- (1241149503606041 / 2251799813685248))"
    by (simp add: js_rem_def js_trunc_def)
  have s4: "div64 (- (1241149503606041 / 2251799813685248)) (7092282877748813 / 2251799813685248) = (- (197032483697459 / 1125899906842624))"
    by (simp add: div64_def fl64_scaled [where m = 55] roundEven_def Let_def)
  show "offset_u (- 210) = (- (197032483697459 / 1125899906842624))"
    by (simp only: offset_u_def cell64 s1 s3 s4)
qed

lemma cellX_far:
  "clampedGridX 100000 = 126"
proof -
  have s1: "add64 100000 200 = 100200"
    by (simp add: add64_def fl64_scaled [where m = 36] roundEven_def Let_def)
  have s2: "div64 100200 (7092282877748813 / 2251799813685248) = (63627 / 2)"
    by (simp add: div64_def fl64_scaled [where m = 38] roundEven_def Let_def)
  have "clampedGridX 100000 = max 0 (min (int worldWidth - 2) \<lfloor>(63627 / 2) :: real\<rfloor>)"
    by (simp only: clampedGridX_def cell64 s1 s2)
  then show "clampedGridX 100000 = 126"
    by (simp add: worldWidth_def resolution_def)
qed

lemma cellX_vertex:
  "clampedGridX (vertexX 5) = 5"
  "offset_u (vertexX 5) = (9007199254740991 / 9007199254740992)"
proof -
  have s1: "add64 (- (3241394908971137 / 17592186044416)) 200 = (277042299912063 / 17592186044416)"
    by (simp add: add64_def fl64_scaled [where m = 49] roundEven_def Let_def)
  have s2: "div64 (277042299912063 / 17592186044416) (7092282877748813 / 2251799813685248) = 5"
    by (simp add: div64_def fl64_scaled [where m = 50] roundEven_def Let_def)
  have "clampedGridX (vertexX 5) = max 0 (min (int worldWidth - 2) \<lfloor>5 :: real\<rfloor>)"
    by (simp only: clampedGridX_def vertexX_5 cell64 s1 s2)
  then show "clampedGridX (vertexX 5) = 5"
    by (simp add: worldWidth_def resolution_def)
  have s3: "js_rem (277042299912063 / 17592186044416) (7092282877748813 / 2251799813685248) = (1773070719437203 / 562949953421312)"
    by (simp add: js_rem_def js_trunc_def)
  have s4: "div64 (1773070719437203 / 562949953421312) (7092282877748813 / 2251799813685248) = (9007199254740991 / 9007199254740992)"
    by (simp add: div64_def fl64_scaled [where m = 53] roundEven_def Let_def)
  show "offset_u (vertexX 5) = (9007199254740991 / 9007199254740992)"
    by (simp only: offset_u_def vertexX_5 cell64 s1 s3 s4)
qed

lemma cellZ_0:
  "clampedGridZ 0 = 63"
  "offset_v 0 = (9007199254740927 / 18014398509481984)"
proof -
  have s1: "add64 0 400 = 400"
    by (simp add: add64_def fl64_scaled [where m = 44] roundEven_def Let_def)
  have s2: "div64 400 (7092282877748813 / 1125899906842624) = (8936830510563327 / 140737488355328)"
    by (simp add: div64_def fl64_scaled [where m = 47] roundEven_def Let_def)
  have "clampedGridZ 0 = max 0 (min (int worldDepth - 2) \<lfloor>(8936830510563327 / 140737488355328) :: real\<rfloor>)"
    by (simp only: clampedGridZ_def cell64 s1 s2)
  then show "clampedGridZ 0 = 63"
    by (simp add: worldDepth_def resolution_def)
  have s3: "js_rem 400 (7092282877748813 / 1125899906842624) = (3546141438874381 / 1125899906842624)"
    by (simp add: js_rem_def js_trunc_def)
  have s4: "div64 (3546141438874381 / 1125899906842624) (7092282877748813 / 1125899906842624) = (9007199254740927 / 18014398509481984)"
    by (simp add: div64_def fl64_scaled [where m = 54] roundEven_def Let_def)
  show "offset_v 0 = (9007199254740927 / 18014398509481984)"
    by (simp only: offset_v_def cell64 s1 s3 s4)
qed

lemma cellZ_far:
  "clampedGridZ (- 5000) = 0"
proof -
  have s1: "add64 (- 5000) 400 = (- 4600)"
    by (simp add: add64_def fl64_scaled [where m = 40] roundEven_def Let_def)
  have s2: "div64 (- 4600) (7092282877748813 / 1125899906842624) = (- (2921 / 4))"
    by (simp add: div64_def fl64_scaled [where m = 43] roundEven_def Let_def)
  have "clampedGridZ (- 5000) = max 0 (min (int worldDepth - 2) \<lfloor>(- (2921 / 4)) :: real\<rfloor>)"
    by (simp only: clampedGridZ_def cell64 s1 s2)
  then show "clampedGridZ (- 5000) = 0"
    by (simp add: worldDepth_def resolution_def)
qed

lemma cellZ_vertex:
  "clampedGridZ (vertexZ 27) = 27"
  "offset_v (vertexZ 27) = (2859785763380265 / 20282409603651670423947251286016)"
proof -
  have s1: "add64 (- (8089635157432239 / 35184372088832)) 400 = (5984113678100561 / 35184372088832)"
    by (simp add: add64_def fl64_scaled [where m = 45] roundEven_def Let_def)
  have s2: "div64 (5984113678100561 / 35184372088832) (7092282877748813 / 1125899906842624) = 27"
    by (simp add: div64_def fl64_scaled [where m = 48] roundEven_def Let_def)
  have "clampedGridZ (vertexZ 27) = max 0 (min (int worldDepth - 2) \<lfloor>27 :: real\<rfloor>)"
    by (simp only: clampedGridZ_def vertexZ_27 cell64 s1 s2)
  then show "clampedGridZ (vertexZ 27) = 27"
    by (simp add: worldDepth_def resolution_def)
  have s3: "js_rem (5984113678100561 / 35184372088832) (7092282877748813 / 1125899906842624) = (1 / 1125899906842624)"
    by (simp add: js_rem_def js_trunc_def)
  have s4: "div64 (1 / 1125899906842624) (7092282877748813 / 1125899906842624) = (2859785763380265 / 20282409603651670423947251286016)"
    by (simp add: div64_def fl64_scaled [where m = 105] roundEven_def Let_def)
  show "offset_v (vertexZ 27) = (2859785763380265 / 20282409603651670423947251286016)"
    by (simp only: offset_v_def vertexZ_27 cell64 s1 s3 s4)
qed

lemma blend_m300:
  "bilinear (- (422212465065983 / 562949953421312)) (9007199254740927 / 18014398509481984) 30 0 30 0 = (923589767331839 / 17592186044416)"
proof -
  have s1: "sub64 1 (- (422212465065983 / 562949953421312)) = (985162418487295 / 562949953421312)"
    by (simp add: sub64_def fl64_scaled [where m = 52] roundEven_def Let_def)
  have s2: "sub64 1 (9007199254740927 / 18014398509481984) = (140737488355329 / 281474976710656)"
    by (simp add: sub64_def fl64_scaled [where m = 53] roundEven_def Let_def)
  have s3: "mul64 (985162418487295 / 562949953421312) (140737488355329 / 281474976710656) = (492581209243651 / 562949953421312)"
    by (simp add: mul64_def fl64_scaled [where m = 53] roundEven_def Let_def)
  have s4: "mul64 (492581209243651 / 562949953421312) 30 = (7388718138654765 / 281474976710656)"
    by (simp add: mul64_def fl64_scaled [where m = 48] roundEven_def Let_def)
  have s5: "mul64 (- (422212465065983 / 562949953421312)) (140737488355329 / 281474976710656) = (- (211106232532993 / 562949953421312))"
    by (simp add: mul64_def fl64_scaled [where m = 54] roundEven_def Let_def)
  have s6: "mul64 (- (211106232532993 / 562949953421312)) 0 = 0"
    by (simp add: mul64_def fl64_zero)
  have s7: "add64 (7388718138654765 / 281474976710656) 0 = (7388718138654765 / 281474976710656)"
    by (simp add: add64_def fl64_scaled [where m = 48] roundEven_def Let_def)
  have s8: "mul64 (985162418487295 / 562949953421312) (9007199254740927 / 18014398509481984) = (7881299347898303 / 9007199254740992)"
    by (simp add: mul64_def fl64_scaled [where m = 53] roundEven_def Let_def)
  have s9: "mul64 (7881299347898303 / 9007199254740992) 30 = (7388718138654659 / 281474976710656)"
    by (simp add: mul64_def fl64_scaled [where m = 48] roundEven_def Let_def)
  have s10: "add64 (7388718138654765 / 281474976710656) (7388718138654659 / 281474976710656) = (923589767331839 / 17592186044416)"
    by (simp add: add64_def fl64_scaled [where m = 47] roundEven_def Let_def)
  have s11: "mul64 (- (422212465065983 / 562949953421312)) (9007199254740927 / 18014398509481984) = (- (6755399441055679 / 18014398509481984))"
    by (simp add: mul64_def fl64_scaled [where m = 54] roundEven_def Let_def)
  have s12: "mul64 (- (6755399441055679 / 18014398509481984)) 0 = 0"
    by (simp add: mul64_def fl64_zero)
  have s13: "add64 (923589767331839 / 17592186044416) 0 = (923589767331839 / 17592186044416)"
    by (simp add: add64_def fl64_scaled [where m = 47] roundEven_def Let_def)
  show ?thesis
    by (simp only: bilinear_def s1 s2 s3 s4 s5 s6 s7 s8 s9 s10 s11 s12 s13)
qed

lemma blend_m200:
  "bilinear 0 (9007199254740927 / 18014398509481984) 30 0 30 0 = 30"
proof -
  have s1: "sub64 1 0 = 1"
    by (simp add: sub64_def fl64_scaled [where m = 52] roundEven_def Let_def)
  have s2: "sub64 1 (9007199254740927 / 18014398509481984) = (140737488355329 / 281474976710656)"
    by (simp add: sub64_def fl64_scaled [where m = 53] roundEven_def Let_def)
  have s3: "mul64 1 (140737488355329 / 281474976710656) = (140737488355329 / 281474976710656)"
    by (simp add: mul64_def fl64_scaled [where m = 53] roundEven_def Let_def)
  have s4: "mul64 (140737488355329 / 281474976710656) 30 = (2111062325329935 / 140737488355328)"
    by (simp add: mul64_def fl64_scaled [where m = 49] roundEven_def Let_def)
  have s5: "mul64 0 (140737488355329 / 281474976710656) = 0"
    by (simp add: mul64_def fl64_zero)
  have s6: "mul64 0 0 = 0"
    by (simp add: mul64_def fl64_zero)
  have s7: "add64 (2111062325329935 / 140737488355328) 0 = (2111062325329935 / 140737488355328)"
    by (simp add: add64_def fl64_scaled [where m = 49] roundEven_def Let_def)
  have s8: "mul64 1 (9007199254740927 / 18014398509481984) = (9007199254740927 / 18014398509481984)"
    by (simp add: mul64_def fl64_scaled [where m = 54] roundEven_def Let_def)
  have s9: "mul64 (9007199254740927 / 18014398509481984) 30 = (8444249301319619 / 562949953421312)"
    by (simp add: mul64_def fl64_scaled [where m = 49] roundEven_def Let_def)
  have s10: "add64 (2111062325329935 / 140737488355328) (8444249301319619 / 562949953421312) = 30"
    by (simp add: add64_def fl64_scaled [where m = 48] roundEven_def Let_def)
  have s11: "mul64 0 (9007199254740927 / 18014398509481984) = 0"
    by (simp add: mul64_def fl64_zero)
  have s13: "add64 30 0 = 30"
    by (simp add: add64_def fl64_scaled [where m = 48] roundEven_def Let_def)
  show ?thesis
    by (simp only: bilinear_def s1 s2 s3 s4 s5 s6 s7 s8 s9 s10 s11 s13)
qed

lemma blend_m210:
  "bilinear (- (197032483697459 / 1125899906842624)) (9007199254740927 / 18014398509481984) 30 0 30 0 = (141 / 4)"
proof -
  have s1: "sub64 1 (- (197032483697459 / 1125899906842624)) = (1322932390540083 / 1125899906842624)"
    by (simp add: sub64_def fl64_scaled [where m = 52] roundEven_def Let_def)
  have s2: "sub64 1 (9007199254740927 / 18014398509481984) = (140737488355329 / 281474976710656)"
    by (simp add: sub64_def fl64_scaled [where m = 53] roundEven_def Let_def)
  have s3: "mul64 (1322932390540083 / 1125899906842624) (140737488355329 / 281474976710656) = (2645864781080185 / 4503599627370496)"
    by (simp add: mul64_def fl64_scaled [where m = 53] roundEven_def Let_def)
  have s4: "mul64 (2645864781080185 / 4503599627370496) 30 = (4960996464525347 / 281474976710656)"
    by (simp add: mul64_def fl64_scaled [where m = 48] roundEven_def Let_def)
  have s5: "mul64 (- (197032483697459 / 1125899906842624)) (140737488355329 / 281474976710656) = (- (6305039478318733 / 72057594037927936))"
    by (simp add: mul64_def fl64_scaled [where m = 56] roundEven_def Let_def)
  have s6: "mul64 (- (6305039478318733 / 72057594037927936)) 0 = 0"
    by (simp add: mul64_def fl64_zero)
  have s7: "add64 (4960996464525347 / 281474976710656) 0 = (4960996464525347 / 281474976710656)"
    by (simp add: add64_def fl64_scaled [where m = 48] roundEven_def Let_def)
  have s8: "mul64 (1322932390540083 / 1125899906842624) (9007199254740927 / 18014398509481984) = (2645864781080147 / 4503599627370496)"
    by (simp add: mul64_def fl64_scaled [where m = 53] roundEven_def Let_def)
  have s9: "mul64 (2645864781080147 / 4503599627370496) 30 = (1240249116131319 / 70368744177664)"
    by (simp add: mul64_def fl64_scaled [where m = 48] roundEven_def Let_def)
  have s10: "add64 (4960996464525347 / 281474976710656) (1240249116131319 / 70368744177664) = (141 / 4)"
    by (simp add: add64_def fl64_scaled [where m = 47] roundEven_def Let_def)
  have s11: "mul64 (- (197032483697459 / 1125899906842624)) (9007199254740927 / 18014398509481984) = (- (6305039478318643 / 72057594037927936))"
    by (simp add: mul64_def fl64_scaled [where m = 56] roundEven_def Let_def)
  have s12: "mul64 (- (6305039478318643 / 72057594037927936)) 0 = 0"
    by (simp add: mul64_def fl64_zero)
  have s13: "add64 (141 / 4) 0 = (141 / 4)"
    by (simp add: add64_def fl64_scaled [where m = 47] roundEven_def Let_def)
  show ?thesis
    by (simp only: bilinear_def s1 s2 s3 s4 s5 s6 s7 s8 s9 s10 s11 s12 s13)
qed

lemma blend_vertex:
  "bilinear (9007199254740991 / 9007199254740992) (2859785763380265 / 20282409603651670423947251286016) 30 0 30 0 = (15 / 4503599627370496)"
proof -
  have s1: "sub64 1 (9007199254740991 / 9007199254740992) = (1 / 9007199254740992)"
    by (simp add: sub64_def fl64_scaled [where m = 105] roundEven_def Let_def)
  have s2: "sub64 1 (2859785763380265 / 20282409603651670423947251286016) = (9007199254740991 / 9007199254740992)"
    by (simp add: sub64_def fl64_scaled [where m = 53] roundEven_def Let_def)
  have s3: "mul64 (1 / 9007199254740992) (9007199254740991 / 9007199254740992) = (9007199254740991 / 81129638414606681695789005144064)"
    by (simp add: mul64_def fl64_scaled [where m = 106] roundEven_def Let_def)
  have s4: "mul64 (9007199254740991 / 81129638414606681695789005144064) 30 = (8444249301319679 / 2535301200456458802993406410752)"
    by (simp add: mul64_def fl64_scaled [where m = 101] roundEven_def Let_def)
  have s5: "mul64 (9007199254740991 / 9007199254740992) (9007199254740991 / 9007199254740992) = (4503599627370495 / 4503599627370496)"
    by (simp add: mul64_def fl64_scaled [where m = 53] roundEven_def Let_def)
  have s6: "mul64 (4503599627370495 / 4503599627370496) 0 = 0"
    by (simp add: mul64_def fl64_zero)
  have s7: "add64 (8444249301319679 / 2535301200456458802993406410752) 0 = (8444249301319679 / 2535301200456458802993406410752)"
    by (simp add: add64_def fl64_scaled [where m = 101] roundEven_def Let_def)
  have s8: "mul64 (1 / 9007199254740992) (2859785763380265 / 20282409603651670423947251286016) = (2859785763380265 / 182687704666362864775460604089535377456991567872)"
    by (simp add: mul64_def fl64_scaled [where m = 158] roundEven_def Let_def)
  have s9: "mul64 (2859785763380265 / 182687704666362864775460604089535377456991567872) 30 = (5362098306337997 / 11417981541647679048466287755595961091061972992)"
    by (simp add: mul64_def fl64_scaled [where m = 153] roundEven_def Let_def)
  have s10: "add64 (8444249301319679 / 2535301200456458802993406410752) (5362098306337997 / 11417981541647679048466287755595961091061972992) = (15 / 4503599627370496)"
    by (simp add: add64_def fl64_scaled [where m = 101] roundEven_def Let_def)
  have s11: "mul64 (9007199254740991 / 9007199254740992) (2859785763380265 / 20282409603651670423947251286016) = (5719571526760529 / 40564819207303340847894502572032)"
    by (simp add: mul64_def fl64_scaled [where m = 105] roundEven_def Let_def)
  have s12: "mul64 (5719571526760529 / 40564819207303340847894502572032) 0 = 0"
    by (simp add: mul64_def fl64_zero)
  have s13: "add64 (15 / 4503599627370496) 0 = (15 / 4503599627370496)"
    by (simp add: add64_def fl64_scaled [where m = 101] roundEven_def Let_def)
  show ?thesis
    by (simp only: bilinear_def s1 s2 s3 s4 s5 s6 s7 s8 s9 s10 s11 s12 s13)
qed

lemma spikeTerrain_height:
  "k < size_c \<Longrightarrow>
   vertexHeight (createTerrain spikeNoise (init_game None)) (int k)
     = Some (if k mod worldWidth = 5 then 30 else 0)"
proof -
  assume k: "k < size_c"
  have l: "length (data (init_game None)) = size_c" by (simp add: init_game_def)
  have c: "(9 / 200 < real n * (1 / 100) \<and> real n * (1 / 100) < 11 / 200) = (n = 5)" for n :: nat
    by auto
  show ?thesis
    by (simp only: createTerrain_height [OF l k] spikeNoise_def noiseScale_def c)
      (simp add: toUint8_def js_trunc_def heightScale_def)
qed

lemma spikeTerrain_query:
  "getTerrainHeight (createTerrain spikeNoise (init_game None)) x z =
    Some (bilinear (offset_u x) (offset_v z)
      (if nat (p00Index x z) mod worldWidth = 5 then 30 else 0)
      (if nat (p10Index x z) mod worldWidth = 5 then 30 else 0)
      (if nat (p01Index x z) mod worldWidth = 5 then 30 else 0)
      (if nat (p11Index x z) mod worldWidth = 5 then 30 else 0))"
proof -
  have v: "vertexHeight (createTerrain spikeNoise (init_game None)) p
      = Some (if nat p mod worldWidth = 5 then 30 else 0)"
    if "0 \<le> p \<and> p < int size_c" for p
  proof -
    have "nat p < size_c" using that by linarith
    from spikeTerrain_height [OF this] that show ?thesis by simp
  qed
  show ?thesis
    by (rule getTerrainHeight_corners [OF createTerrain_ready]) (rule v, rule corner_range)+
qed

lemma createTerrain_quantized:
  assumes "length (data g) = size_c" and "\<forall>x y z. - 1 \<le> noise x y z \<and> noise x y z \<le> 1"
    and "k < size_c"
  shows "data (createTerrain noise g) ! k \<le> 128
    \<and> vertexHeight (createTerrain noise g) (int k)
        = Some (real (data (createTerrain noise g) ! k) * (heightScale / 128))"
proof -
  let ?n = "noise (real (k mod worldWidth) * noiseScale) (real (k div worldWidth) * noiseScale) 0"
  have n: "- 1 \<le> ?n" "?n \<le> 1" using assms(2) by simp_all
  have "data (createTerrain noise g) ! k \<le> 128"
    using toUint8_unit(2) [OF n] by (simp only: createTerrain_data(2) [OF assms(1,3)])
  then show ?thesis
    using createTerrain_height_data [OF assms(1,3), of noise] by simp
qed

section \<open>Facts about the road loops\<close>

declare plan_loop.simps [simp del] uv_loop.simps [simp del] conform_loop.simps [simp del]
  populateTrees_loop.simps [simp del]

lemma concat2_length: "length (concat (map (\<lambda>k. [a k, b k]) xs)) = 2 * length xs"
  by (induction xs) auto

lemma plan_loop_length:
  "length (plan_loop i pathPoints) = length pathPoints + (Suc roadSegments - i)"
proof (induction i pathPoints rule: plan_loop.induct)
  case (1 i pathPoints)
  show ?case
  proof (cases "i \<le> roadSegments")
    case True
    then show ?thesis
      using "1.IH" [OF True refl refl]
      by (subst plan_loop.simps) (simp add: Let_def)
  next
    case False
    then show ?thesis by (subst plan_loop.simps) simp
  qed
qed

lemma plan_loop_eq:
  "plan_loop i pathPoints =
     pathPoints @ map (\<lambda>k. Vector3 (sin ((roadStartZ + real k * roadSegmentLength) * 0.05) * 5) 0
                             (roadStartZ + real k * roadSegmentLength))
                    [i..<Suc roadSegments]"
proof (induction i pathPoints rule: plan_loop.induct)
  case (1 i pathPoints)
  let ?f = "\<lambda>k. Vector3 (sin ((roadStartZ + real k * roadSegmentLength) * 0.05) * 5) 0
                             (roadStartZ + real k * roadSegmentLength)"
  show ?case
  proof (cases "i \<le> roadSegments")
    case True
    then have u: "[i..<Suc roadSegments] = i # [i + 1..<Suc roadSegments]"
      by (simp add: upt_conv_Cons del: upt_Suc)
    have "plan_loop i pathPoints = plan_loop (i + 1) (pathPoints @ [?f i])"
      by (subst plan_loop.simps) (simp only: True if_True Let_def)
    also have "\<dots> = (pathPoints @ [?f i]) @ map ?f [i + 1..<Suc roadSegments]"
      by (rule "1.IH" [OF True refl refl])
    also have "\<dots> = pathPoints @ map ?f [i..<Suc roadSegments]"
      by (simp only: u list.map append_assoc append_Cons append_Nil)
    finally show ?thesis .
  next
    case False
    then have "[i..<Suc roadSegments] = []" by simp
    then show ?thesis using False by (subst plan_loop.simps) simp
  qed
qed

lemma plannedPath_nth:
  "n < roadSegments + 1 \<Longrightarrow>
   plannedPath ! n = Vector3 (sin ((roadStartZ + real n * roadSegmentLength) * 0.05) * 5) 0
                             (roadStartZ + real n * roadSegmentLength)"
  by (simp add: plannedPath_def plan_loop_eq del: upt_Suc)

lemma conform_loop_result:
  "conform_loop g i pathPoints = Some pathPoints' \<Longrightarrow>
   length pathPoints' = length pathPoints \<and>
   (\<forall>n < length pathPoints.
      if i \<le> n
      then \<exists>h. getTerrainHeight g (vec_x (pathPoints ! n)) (vec_z (pathPoints ! n)) = Some h
             \<and> pathPoints' ! n = Vector3 (vec_x (pathPoints ! n)) (h + 0.1) (vec_z (pathPoints ! n))
      else pathPoints' ! n = pathPoints ! n)"
proof (induction g i pathPoints arbitrary: pathPoints' rule: conform_loop.induct)
  case (1 g i pathPoints)
  show ?case
  proof (cases "i < length pathPoints")
    case True
    obtain h where h: "getTerrainHeight g (vec_x (pathPoints ! i)) (vec_z (pathPoints ! i)) = Some h"
      using "1.prems" True
      by (subst (asm) conform_loop.simps) (auto simp add: Let_def split: option.splits)
    let ?q = "pathPoints[i := Vector3 (vec_x (pathPoints ! i)) (h + 0.1) (vec_z (pathPoints ! i))]"
    have r: "conform_loop g (i + 1) ?q = Some pathPoints'"
      using "1.prems" True h
      by (subst (asm) conform_loop.simps) (simp add: Let_def)
    note ih = "1.IH" [OF True refl h r]
    show ?thesis
    proof (intro conjI allI impI)
      show "length pathPoints' = length pathPoints" using ih by simp
    next
      fix n assume n: "n < length pathPoints"
      show "if i \<le> n
        then \<exists>h. getTerrainHeight g (vec_x (pathPoints ! n)) (vec_z (pathPoints ! n)) = Some h
             \<and> pathPoints' ! n = Vector3 (vec_x (pathPoints ! n)) (h + 0.1) (vec_z (pathPoints ! n))
        else pathPoints' ! n = pathPoints ! n"
      proof (cases "n = i")
        case True
        then show ?thesis using ih n h by simp
      next
        case False
        then show ?thesis using ih n by (auto simp add: nth_list_update split: if_splits)
      qed
    qed
  next
    case False
    then show ?thesis using "1.prems" by (subst (asm) conform_loop.simps) auto
  qed
qed

lemma conform_loop_total:
  "(\<forall>x z. \<exists>h. getTerrainHeight g x z = Some h) \<Longrightarrow>
   \<exists>pathPoints'. conform_loop g i pathPoints = Some pathPoints'"
proof (induction g i pathPoints rule: conform_loop.induct)
  case (1 g i pathPoints)
  show ?case
  proof (cases "i < length pathPoints")
    case True
    obtain h where h: "getTerrainHeight g (vec_x (pathPoints ! i)) (vec_z (pathPoints ! i)) = Some h"
      using "1.prems" by blast
    show ?thesis
      using "1.IH" [OF True refl h "1.prems"] True h
      by (subst conform_loop.simps) (simp add: Let_def)
  next
    case False
    then show ?thesis by (subst conform_loop.simps) simp
  qed
qed

lemma uv_loop_total:
  "itemSize positionAttribute = 3 \<Longrightarrow>
   3 * count uvAttribute \<le> length (array positionAttribute) \<Longrightarrow>
   \<exists>uv'. uv_loop uvAttribute positionAttribute roadLength i = Some uv'
     \<and> length (array uv') = length (array uvAttribute) \<and> itemSize uv' = itemSize uvAttribute"
proof (induction uvAttribute positionAttribute roadLength i rule: uv_loop.induct)
  case (1 uvAttribute positionAttribute roadLength i)
  show ?case
  proof (cases "i < count uvAttribute")
    case True
    have b: "i * 3 + 2 < length (array positionAttribute)"
      using True "1.prems" by linarith
    obtain xValue zValue where g: "getX positionAttribute (int i) = Some xValue"
      "getZ positionAttribute (int i) = Some zValue"
      using b "1.prems"(1) by (simp add: getX_def getZ_def getComponent_def)
    let ?uv = "setY (setX uvAttribute i ((xValue / (roadWidth / 2) + 1) / 2))
                        i (zValue / roadLength * roadTextureRepeat)"
    have c: "count ?uv = count uvAttribute" "length (array ?uv) = length (array uvAttribute)"
      "itemSize ?uv = itemSize uvAttribute"
      by (simp_all add: count_def setX_def setY_def)
    have "3 * count ?uv \<le> length (array positionAttribute)"
      using "1.prems"(2) by (simp only: c)
    from "1.IH" [OF True refl g(1) g(2) "1.prems"(1) this]
    show ?thesis
      using True g c by (subst uv_loop.simps) simp
  next
    case False
    then show ?thesis by (subst uv_loop.simps) simp
  qed
qed

lemma TubeGeometry_attributes:
  "\<exists>pos uv. attr_position (TubeGeometry lib points ts radius rs) = Some pos
     \<and> attr_uv (TubeGeometry lib points ts radius rs) = Some uv
     \<and> itemSize pos = 3 \<and> length (array pos) = 3 * ((ts + 1) * (rs + 1))
     \<and> itemSize uv = 2 \<and> length (array uv) = 2 * ((ts + 1) * (rs + 1))
     \<and> count pos = (ts + 1) * (rs + 1) \<and> count uv = (ts + 1) * (rs + 1)"
  by (simp add: TubeGeometry_def count_def concat2_length concat3_length Let_def)

lemma generateRoads_Some:
  assumes "generateRoads lib g = Some g'"
  shows "\<exists>uv0 pos0 uvAttribute pathPoints' roadMesh.
      attr_uv (plannedTube lib) = Some uv0 \<and> attr_position (plannedTube lib) = Some pos0
    \<and> uv_loop uv0 pos0 (getLength lib plannedPath) 0 = Some uvAttribute
    \<and> conform_loop g 0 plannedPath = Some pathPoints'
    \<and> roadMeshes g' = roadMeshes g @ [roadMesh] \<and> scene g' = scene g @ [roadMesh]
    \<and> terrainMesh g' = terrainMesh g
    \<and> geometry roadMesh = Some ((TubeGeometry lib pathPoints' (roadSegments * 2) (roadWidth / 2) 8)
                                  \<lparr>attr_uv := Some uvAttribute\<rparr>)
    \<and> position roadMesh = Vector3 0 0.5 0 \<and> rotation roadMesh = Vector3 0 0 0
    \<and> scale roadMesh = Vector3 1 1 1 \<and> castShadow roadMesh \<and> receiveShadow roadMesh"
  using assms
  by (auto simp add: generateRoads_def plannedTube_def plannedPath_def Let_def Mesh_def
      split: option.splits)

lemma plannedTube_counts:
  "\<exists>pos0 uv0. attr_position (plannedTube lib) = Some pos0 \<and> attr_uv (plannedTube lib) = Some uv0
     \<and> itemSize pos0 = 3 \<and> length (array pos0) = 3 * ((roadSegments * 2 + 1) * 9)
     \<and> itemSize uv0 = 2 \<and> length (array uv0) = 2 * ((roadSegments * 2 + 1) * 9)
     \<and> count pos0 = (roadSegments * 2 + 1) * 9 \<and> count uv0 = (roadSegments * 2 + 1) * 9"
  using TubeGeometry_attributes [of lib plannedPath "roadSegments * 2" "roadWidth / 2" 8]
  by (simp add: plannedTube_def)

lemma generateRoads_total:
  assumes "\<forall>x z. \<exists>h. getTerrainHeight g x z = Some h"
  shows "\<exists>g'. generateRoads lib g = Some g'"
proof -
  obtain pos0 uv0 where t: "attr_position (plannedTube lib) = Some pos0"
    "attr_uv (plannedTube lib) = Some uv0" "itemSize pos0 = 3"
    "length (array pos0) = 3 * ((roadSegments * 2 + 1) * 9)"
    "count uv0 = (roadSegments * 2 + 1) * 9"
    using plannedTube_counts [of lib] by blast
  have "3 * count uv0 \<le> length (array pos0)" by (simp only: t(4,5))
  from uv_loop_total [OF t(3) this, of "getLength lib plannedPath" 0]
  obtain uv' where u: "uv_loop uv0 pos0 (getLength lib plannedPath) 0 = Some uv'" by blast
  obtain pathPoints' where c: "conform_loop g 0 plannedPath = Some pathPoints'"
    using conform_loop_total [OF assms] by blast
  show ?thesis
    using t(1,2) u c
    by (simp add: generateRoads_def plannedTube_def [symmetric] plannedPath_def [symmetric] Let_def)
qed

lemma getTerrainHeight_init: "getTerrainHeight (init_game m) x z = Some 0"
  by (simp add: getTerrainHeight_def init_game_def)

section \<open>Facts about the tree loops\<close>

lemma sample_loop_accepts:
  assumes s: "sample_loop random0 k0 = Some r0"
  shows "(\<forall>n. 0 \<le> random0 n \<and> random0 n < 1) \<longrightarrow>
   (\<exists>x z k'. r0 = (x, z, k')
    \<and> \<not> (\<bar>x\<bar> < roadWidth * 1.5 \<and> \<bar>z\<bar> < terrainDepth * 0.5)
    \<and> - (0.45 * terrainWidth) \<le> x \<and> x \<le> 0.45 * terrainWidth
    \<and> - (0.45 * terrainDepth) \<le> z \<and> z \<le> 0.45 * terrainDepth)"
proof (rule sample_loop.raw_induct [where P = "\<lambda>random k r.
   (\<forall>n. 0 \<le> random n \<and> random n < 1) \<longrightarrow>
   (\<exists>x z k'. r = (x, z, k')
    \<and> \<not> (\<bar>x\<bar> < roadWidth * 1.5 \<and> \<bar>z\<bar> < terrainDepth * 0.5)
    \<and> - (0.45 * terrainWidth) \<le> x \<and> x \<le> 0.45 * terrainWidth
    \<and> - (0.45 * terrainDepth) \<le> z \<and> z \<le> 0.45 * terrainDepth)", OF _ s])
  fix sl :: "(nat \<Rightarrow> real) \<Rightarrow> nat \<Rightarrow> (real \<times> real \<times> nat) option"
    and random :: "nat \<Rightarrow> real" and k :: nat and r :: "real \<times> real \<times> nat"
  let ?x = "(random k - 0.5) * terrainWidth * 0.9"
  let ?z = "(random (k + 1) - 0.5) * terrainDepth * 0.9"
  assume IH: "\<And>random k y. sl random k = Some y \<Longrightarrow>
    (\<forall>n. 0 \<le> random n \<and> random n < 1) \<longrightarrow>
    (\<exists>x z k'. y = (x, z, k')
      \<and> \<not> (\<bar>x\<bar> < roadWidth * 1.5 \<and> \<bar>z\<bar> < terrainDepth * 0.5)
      \<and> - (0.45 * terrainWidth) \<le> x \<and> x \<le> 0.45 * terrainWidth
      \<and> - (0.45 * terrainDepth) \<le> z \<and> z \<le> 0.45 * terrainDepth)"
  assume eq: "(let x = (random k - 0.5) * terrainWidth * 0.9;
          z = (random (k + 1) - 0.5) * terrainDepth * 0.9
      in if \<bar>x\<bar> < roadWidth * 1.5 \<and> \<bar>z\<bar> < terrainDepth * 0.5
         then sl random (k + 2)
         else Some (x, z, k + 2)) = Some r"
  show "(\<forall>n. 0 \<le> random n \<and> random n < 1) \<longrightarrow>
    (\<exists>x z k'. r = (x, z, k')
      \<and> \<not> (\<bar>x\<bar> < roadWidth * 1.5 \<and> \<bar>z\<bar> < terrainDepth * 0.5)
      \<and> - (0.45 * terrainWidth) \<le> x \<and> x \<le> 0.45 * terrainWidth
      \<and> - (0.45 * terrainDepth) \<le> z \<and> z \<le> 0.45 * terrainDepth)"
  proof
    assume rng: "\<forall>n. 0 \<le> random n \<and> random n < 1"
    show "\<exists>x z k'. r = (x, z, k')
      \<and> \<not> (\<bar>x\<bar> < roadWidth * 1.5 \<and> \<bar>z\<bar> < terrainDepth * 0.5)
      \<and> - (0.45 * terrainWidth) \<le> x \<and> x \<le> 0.45 * terrainWidth
      \<and> - (0.45 * terrainDepth) \<le> z \<and> z \<le> 0.45 * terrainDepth"
    proof (cases "\<bar>?x\<bar> < roadWidth * 1.5 \<and> \<bar>?z\<bar> < terrainDepth * 0.5")
      case True
      have "sl random (k + 2) = Some r" using eq by (simp only: Let_def True if_True simp_thms)
      from IH [OF this] rng show ?thesis by blast
    next
      case False
      have "Some (?x, ?z, k + 2) = Some r" using eq by (simp only: Let_def False if_False simp_thms)
      then have r: "r = (?x, ?z, k + 2)" by (simp only: option.inject)
      have a: "0 \<le> random k" "random k < 1" "0 \<le> random (k + 1)" "random (k + 1) < 1"
        using rng by simp_all
      have bx: "- (0.45 * terrainWidth) \<le> ?x \<and> ?x \<le> 0.45 * terrainWidth"
        using a(1,2) by (simp add: terrainWidth_def)
      have bz: "- (0.45 * terrainDepth) \<le> ?z \<and> ?z \<le> 0.45 * terrainDepth"
        using a(3,4) by (simp add: terrainDepth_def)
      show ?thesis using False r bx bz by blast
    qed
  qed
qed

lemma populateTrees_loop_step:
  "i < numTrees \<Longrightarrow> sample_loop random k = Some (x, z, k1) \<Longrightarrow>
   getTerrainHeight g x z = Some y \<Longrightarrow>
   populateTrees_loop g model random i k clones =
     (let clone = model\<lparr>position := Vector3 x y z,
                        scale := Vector3 treeScale treeScale treeScale\<rparr>;
          clone' = clone\<lparr>rotation := Vector3 (vec_x (rotation clone))
                     (random k1 * pi * 2) (vec_z (rotation clone))\<rparr>;
          clone'' = (if geometry clone' \<noteq> None
                     then clone'\<lparr>castShadow := True, receiveShadow := True\<rparr>
                     else clone')
      in populateTrees_loop g model random (i + 1) (k1 + 1) (clones @ [clone'']))"
  by (subst populateTrees_loop.simps) (simp only: if_True option.case prod.case)

lemma populateTrees_loop_stop:
  "\<not> i < numTrees \<Longrightarrow> populateTrees_loop g model random i k clones = Some (clones, k)"
  by (subst populateTrees_loop.simps) (simp only: if_False)

lemma populateTrees_loop_None:
  "i < numTrees \<Longrightarrow> sample_loop random k = None \<Longrightarrow>
   populateTrees_loop g model random i k clones = None"
  "i < numTrees \<Longrightarrow> sample_loop random k = Some (x, z, k1) \<Longrightarrow>
   getTerrainHeight g x z = None \<Longrightarrow>
   populateTrees_loop g model random i k clones = None"
  by (subst populateTrees_loop.simps, simp only: if_True option.case prod.case)+

lemma clone_treeOk:
  assumes "\<not> (\<bar>x\<bar> < roadWidth * 1.5 \<and> \<bar>z\<bar> < terrainDepth * 0.5)"
    and "- (0.45 * terrainWidth) \<le> x \<and> x \<le> 0.45 * terrainWidth"
    and "- (0.45 * terrainDepth) \<le> z \<and> z \<le> 0.45 * terrainDepth"
    and "getTerrainHeight g x z = Some y"
    and "0 \<le> r \<and> r < 1"
  shows "treeOk g (let clone = model\<lparr>position := Vector3 x y z,
                        scale := Vector3 treeScale treeScale treeScale\<rparr>;
          clone' = clone\<lparr>rotation := Vector3 (vec_x (rotation clone))
                     (r * pi * 2) (vec_z (rotation clone))\<rparr>;
          clone'' = (if geometry clone' \<noteq> None
                     then clone'\<lparr>castShadow := True, receiveShadow := True\<rparr>
                     else clone')
      in clone'')"
proof -
  have y: "0 \<le> r * pi * 2 \<and> r * pi * 2 < 2 * pi"
    using assms(5) pi_gt_zero by simp
  have b: "\<not> (\<bar>x\<bar> < 18 \<and> \<bar>z\<bar> < 400)"
    using assms(1) by (simp add: roadWidth_def terrainDepth_def)
  show ?thesis
    using y b assms(2,3,4) by (simp add: treeOk_def Let_def)
qed

lemma populateTrees_loop_result:
  "populateTrees_loop g model random i k clones = Some (clones', k') \<Longrightarrow>
   \<forall>n. 0 \<le> random n \<and> random n < 1 \<Longrightarrow>
   \<exists>new. clones' = clones @ new \<and> length new = numTrees - i \<and> (\<forall>t \<in> set new. treeOk g t)"
proof (induction "numTrees - i" arbitrary: i k clones)
  case 0
  then have "\<not> i < numTrees" by simp
  then show ?case using "0.prems"(1) by (simp add: populateTrees_loop_stop)
next
  case (Suc m)
  then have i: "i < numTrees" by simp
  obtain x z k1 where s: "sample_loop random k = Some (x, z, k1)"
    using Suc.prems(1) i populateTrees_loop_None(1) [OF i, of random k g model clones]
    by (cases "sample_loop random k") auto
  obtain y where y: "getTerrainHeight g x z = Some y"
    using Suc.prems(1) populateTrees_loop_None(2) [OF i s, of g model clones]
    by (cases "getTerrainHeight g x z") auto
  let ?t = "(let clone = model\<lparr>position := Vector3 x y z,
                        scale := Vector3 treeScale treeScale treeScale\<rparr>;
          clone' = clone\<lparr>rotation := Vector3 (vec_x (rotation clone))
                     (random k1 * pi * 2) (vec_z (rotation clone))\<rparr>;
          clone'' = (if geometry clone' \<noteq> None
                     then clone'\<lparr>castShadow := True, receiveShadow := True\<rparr>
                     else clone')
      in clone'')"
  have step: "populateTrees_loop g model random (i + 1) (k1 + 1) (clones @ [?t]) = Some (clones', k')"
    using Suc.prems(1) by (simp only: populateTrees_loop_step [OF i s y] Let_def)
  have m: "m = numTrees - (i + 1)" using Suc.hyps(2) by simp
  from Suc.hyps(1) [OF m step Suc.prems(2)]
  obtain new where new: "clones' = (clones @ [?t]) @ new" "length new = numTrees - (i + 1)"
    "\<forall>t \<in> set new. treeOk g t"
    by blast
  from sample_loop_accepts [OF s] Suc.prems(2)
  have a: "\<not> (\<bar>x\<bar> < roadWidth * 1.5 \<and> \<bar>z\<bar> < terrainDepth * 0.5)"
    "- (0.45 * terrainWidth) \<le> x \<and> x \<le> 0.45 * terrainWidth"
    "- (0.45 * terrainDepth) \<le> z \<and> z \<le> 0.45 * terrainDepth"
    by simp_all
  have r: "0 \<le> random k1 \<and> random k1 < 1" using Suc.prems(2) by simp
  have ok: "treeOk g ?t" by (rule clone_treeOk [OF a y r])
  have "clones' = clones @ (?t # new)" using new(1) by simp
  moreover have "length (?t # new) = numTrees - i" using new(2) i by simp
  moreover have "\<forall>t \<in> set (?t # new). treeOk g t" using ok new(3) by simp
  ultimately show ?case by blast
qed

lemma sample_loop_const: "sample_loop constRandom k = Some (144, 288, k + 2)"
  by (subst sample_loop.simps)
    (simp add: constRandom_def terrainWidth_def terrainDepth_def roadWidth_def Let_def)

lemma populateTrees_loop_const:
  "\<forall>x z. \<exists>h. getTerrainHeight g x z = Some h \<Longrightarrow>
   \<exists>r. populateTrees_loop g model constRandom i k clones = Some r"
proof (induction "numTrees - i" arbitrary: i k clones)
  case 0
  then have "\<not> i < numTrees" by simp
  then show ?case by (simp add: populateTrees_loop_stop)
next
  case (Suc m)
  then have i: "i < numTrees" by simp
  obtain y where y: "getTerrainHeight g 144 288 = Some y" using Suc.prems by blast
  have m: "m = numTrees - (i + 1)" using Suc.hyps(2) by simp
  show ?case
    using Suc.hyps(1) [OF m Suc.prems]
    by (simp only: populateTrees_loop_step [OF i sample_loop_const y] Let_def)
qed

section \<open>The height query before the terrain exists\<close>

text \<open>
  Claim C9. While the terrain mesh, its geometry or its position attribute is missing,
  \<open>getTerrainHeight\<close> returns 0 for every input and raises nothing.
\<close>

theorem getTerrainHeight_not_ready:
  "\<not> terrainReady g \<Longrightarrow> getTerrainHeight g x z = Some 0"
  by (simp add: terrainReady_def getTerrainHeight_def split: option.splits)

theorem getTerrainHeight_not_ready_witness:
  "\<not> terrainReady (init_game None) \<and> getTerrainHeight (init_game None) 12 (-7) = Some 0"
  using getTerrainHeight_not_ready [of "init_game None" 12 "-7"]
  by (simp add: terrainReady_def init_game_def)

section \<open>The four corner reads stay inside the buffer\<close>

text \<open>
  Claim C4. For every real input \<open>(x, z)\<close>, however far outside the terrain, the clamped
  cell indices lie in \<open>[0, worldWidth - 2]\<close> and \<open>[0, worldDepth - 2]\<close>, the four corner
  indices are positions of the \<open>worldWidth * worldDepth\<close> vertex buffer, each of the four
  reads finds a value, and \<open>getTerrainHeight\<close> returns a number.
\<close>

theorem getTerrainHeight_in_bounds:
  assumes "terrainPosition g = Some pos" and "gridBuffer pos"
  shows "(\<exists>y00 y10 y01 y11.
        getY pos (p00Index x z) = Some y00 \<and> getY pos (p10Index x z) = Some y10
      \<and> getY pos (p01Index x z) = Some y01 \<and> getY pos (p11Index x z) = Some y11
      \<and> getTerrainHeight g x z = Some (bilinear (offset_u x) (offset_v z) y00 y10 y01 y11))
    \<and> 0 \<le> clampedGridX x \<and> clampedGridX x \<le> int worldWidth - 2
    \<and> 0 \<le> clampedGridZ z \<and> clampedGridZ z \<le> int worldDepth - 2
    \<and> 0 \<le> p00Index x z \<and> p00Index x z < int (count pos)
    \<and> 0 \<le> p10Index x z \<and> p10Index x z < int (count pos)
    \<and> 0 \<le> p01Index x z \<and> p01Index x z < int (count pos)
    \<and> 0 \<le> p11Index x z \<and> p11Index x z < int (count pos)"
proof -
  have c: "count pos = size_c"
    using assms(2) by (simp add: count_def gridBuffer_def)
  have h: "\<exists>y00 y10 y01 y11.
        getY pos (p00Index x z) = Some y00 \<and> getY pos (p10Index x z) = Some y10
      \<and> getY pos (p01Index x z) = Some y01 \<and> getY pos (p11Index x z) = Some y11
      \<and> getTerrainHeight g x z = Some (bilinear (offset_u x) (offset_v z) y00 y10 y01 y11)"
    using getTerrainHeight_grid [OF assms, of x z] corner_range [of x z] assms(2)
    by (simp add: getY_grid)
  show ?thesis
    using h clampedGridX_range [of x] clampedGridZ_range [of z] corner_range [of x z]
    by (simp only: c simp_thms)
qed

theorem getTerrainHeight_in_bounds_witness:
  "(\<exists>h. getTerrainHeight (createTerrain flatNoise (init_game None)) 100000 (- 5000) = Some h)
   \<and> clampedGridX 100000 = 126 \<and> clampedGridZ (- 5000) = 0
   \<and> p11Index 100000 (- 5000) = 255"
proof -
  obtain pos where pos: "terrainPosition (createTerrain flatNoise (init_game None)) = Some pos"
    "gridBuffer pos"
    using createTerrain_position by blast
  have c: "clampedGridX 100000 = 126" "clampedGridZ (- 5000) = 0"
    by (rule cellX_far, rule cellZ_far)
  have p: "p11Index 100000 (- 5000) = 255"
    by (simp add: p11Index_def c worldWidth_def resolution_def)
  from getTerrainHeight_in_bounds [OF pos, of 100000 "- 5000"]
  have "\<exists>h. getTerrainHeight (createTerrain flatNoise (init_game None)) 100000 (- 5000) = Some h"
    by blast
  then show ?thesis using c p by simp
qed

section \<open>The height at a grid vertex\<close>

text \<open>
  Claim C2 says that at a grid vertex strictly inside the terrain bounds
  \<open>getTerrainHeight\<close> returns exactly the height stored at that vertex. The code takes the
  cell from the rounded quotient \<open>localX / cell\<close> and the offset from the exact remainder
  \<open>localX % cell\<close>, and in doubles the two disagree. At the vertex of column 5 and row 27
  the quotient rounds to 5, so the cell is the vertex's own, while the remainder is one
  rounding step short of a whole cell: the offset \<open>u\<close> is \<open>0.9999999999999999\<close>, not 0, and
  the result is almost wholly the height of the next column. On the terrain whose column
  5 has the height 30 and every other column the height 0, the query at that vertex
  returns about \<open>3.3e-15\<close> where 30 is stored.
\<close>

theorem getTerrainHeight_vertex_off:
  "getTerrainHeight (createTerrain spikeNoise (init_game None)) (vertexX 5) (vertexZ 27)
     = Some (15 / 4503599627370496)
   \<and> vertexHeight (createTerrain spikeNoise (init_game None)) (int (27 * worldWidth + 5))
     = Some 30
   \<and> - terrainWidth / 2 < vertexX 5 \<and> vertexX 5 < terrainWidth / 2
   \<and> - terrainDepth / 2 < vertexZ 27 \<and> vertexZ 27 < terrainDepth / 2
   \<and> clampedGridX (vertexX 5) = 5 \<and> clampedGridZ (vertexZ 27) = 27
   \<and> offset_u (vertexX 5) = (9007199254740991 / 9007199254740992)"
proof -
  have q: "getTerrainHeight (createTerrain spikeNoise (init_game None)) (vertexX 5) (vertexZ 27)
     = Some (15 / 4503599627370496)"
    by (simp add: spikeTerrain_query p00Index_def p10Index_def p01Index_def p11Index_def
        cellX_vertex cellZ_vertex blend_vertex worldWidth_def resolution_def)
  have k: "27 * worldWidth + 5 < size_c"
    by (simp add: size_c_def worldWidth_def worldDepth_def resolution_def)
  have v: "vertexHeight (createTerrain spikeNoise (init_game None)) (int (27 * worldWidth + 5))
     = Some 30"
    by (simp only: spikeTerrain_height [OF k]) (simp add: worldWidth_def resolution_def)
  have b: "- terrainWidth / 2 < vertexX 5 \<and> vertexX 5 < terrainWidth / 2
   \<and> - terrainDepth / 2 < vertexZ 27 \<and> vertexZ 27 < terrainDepth / 2"
    by (simp add: vertexX_5 vertexZ_27 terrainWidth_def terrainDepth_def)
  show ?thesis
    using q v b cellX_vertex cellZ_vertex(1) by simp
qed

section \<open>The height stored at a vertex\<close>

text \<open>
  Claim C3 says that the height stored for grid cell \<open>(i, j)\<close> is
  \<open>(noise (i * noiseScale) (j * noiseScale) 0 * 0.5 + 0.5) * heightScale\<close>. The code
  stores the normalized sample, scaled to 0..128, in a \<^verbatim>\<open>Uint8Array\<close> first, which
  drops its fraction. With a noise function that is 0.01 everywhere the first vertex gets
  the height 15, and the formula of the claim gives 15.15.
\<close>

theorem createTerrain_height_not_exact:
  "vertexHeight (createTerrain flatNoise (init_game None)) (int (0 * worldWidth + 0)) = Some 15
   \<and> (flatNoise (real 0 * noiseScale) (real 0 * noiseScale) 0 * 0.5 + 0.5) * heightScale = 303 / 20"
proof -
  have l: "length (data (init_game None)) = size_c" by (simp add: init_game_def)
  have k: "0 < size_c" by (simp add: size_c_def worldWidth_def worldDepth_def resolution_def)
  have "vertexHeight (createTerrain flatNoise (init_game None)) (int 0) = Some 15"
    using createTerrain_height [OF l k, of flatNoise]
    by (simp add: flatNoise_def toUint8_def js_trunc_def heightScale_def)
  then show ?thesis by (simp add: flatNoise_def heightScale_def)
qed

text \<open>
  Claim C3, amended. For a noise function with values in \<open>[-1, 1]\<close> and every grid cell
  \<open>(i, j)\<close>, the byte stored for the cell is the integer part of
  \<open>(noise (i * noiseScale) (j * noiseScale) 0 * 0.5 + 0.5) * 128\<close>, and the height of the
  vertex is that integer times \<open>heightScale / 128\<close>.
\<close>

theorem createTerrain_height_quantized:
  assumes "length (data g) = size_c" and "i < worldWidth" and "j < worldDepth"
    and "\<forall>x y z. - 1 \<le> noise x y z \<and> noise x y z \<le> 1"
  shows "data (createTerrain noise g) ! (j * worldWidth + i)
           = nat \<lfloor>(noise (real i * noiseScale) (real j * noiseScale) 0 * 0.5 + 0.5) * 128\<rfloor>
    \<and> vertexHeight (createTerrain noise g) (int (j * worldWidth + i))
           = Some (real (nat \<lfloor>(noise (real i * noiseScale) (real j * noiseScale) 0 * 0.5 + 0.5) * 128\<rfloor>)
                   * (heightScale / 128))"
proof -
  have k: "j * worldWidth + i < size_c" "(j * worldWidth + i) mod worldWidth = i"
    "(j * worldWidth + i) div worldWidth = j"
    using grid_index [OF assms(2,3)] by simp_all
  have n: "- 1 \<le> noise (real i * noiseScale) (real j * noiseScale) 0"
    "noise (real i * noiseScale) (real j * noiseScale) 0 \<le> 1"
    using assms(4) by simp_all
  show ?thesis
    using createTerrain_data(2) [OF assms(1) k(1), of noise]
      createTerrain_height [OF assms(1) k(1), of noise]
    by (simp only: k(2,3) toUint8_unit(1) [OF n])
qed

theorem createTerrain_height_quantized_witness:
  "vertexHeight (createTerrain flatNoise (init_game None)) (int (2 * worldWidth + 3))
     = Some (real (nat \<lfloor>(flatNoise (real 3 * noiseScale) (real 2 * noiseScale) 0 * 0.5 + 0.5) * 128\<rfloor>)
             * (heightScale / 128))
   \<and> nat \<lfloor>(flatNoise (real 3 * noiseScale) (real 2 * noiseScale) 0 * 0.5 + 0.5) * 128\<rfloor> = 64"
proof -
  have a: "length (data (init_game None)) = size_c" "(3::nat) < worldWidth" "(2::nat) < worldDepth"
    "\<forall>x y z. - 1 \<le> flatNoise x y z \<and> flatNoise x y z \<le> 1"
    by (simp_all add: init_game_def worldWidth_def worldDepth_def resolution_def flatNoise_def)
  have "nat \<lfloor>(flatNoise (real 3 * noiseScale) (real 2 * noiseScale) 0 * 0.5 + 0.5) * 128\<rfloor> = 64"
    by (simp add: flatNoise_def)
  then show ?thesis
    using createTerrain_height_quantized [OF a] by simp
qed

section \<open>Size of the grid and range of the heights\<close>

text \<open>
  Claim C5. The configuration is \<open>resolution = 128\<close>, \<open>terrainWidth = 400\<close>,
  \<open>terrainDepth = 800\<close>, \<open>heightScale = 30\<close>. For every noise function with values in
  \<open>[-1, 1]\<close> the built grid has \<open>128 * 128 = 16384\<close> samples, the mesh has as many
  vertices, and every vertex height lies in \<open>[0, 30]\<close>.
\<close>

theorem createTerrain_grid_bounds:
  assumes "length (data g) = size_c"
    and "\<forall>x y z. - 1 \<le> noise x y z \<and> noise x y z \<le> 1"
  shows "resolution = 128 \<and> terrainWidth = 400 \<and> terrainDepth = 800 \<and> heightScale = 30
    \<and> length (data (createTerrain noise g)) = 128 * 128
    \<and> length (data (createTerrain noise g)) = 16384
    \<and> (\<exists>pos. terrainPosition (createTerrain noise g) = Some pos \<and> count pos = 16384)
    \<and> (\<forall>k < 16384. \<exists>h. vertexHeight (createTerrain noise g) (int k) = Some h \<and> 0 \<le> h \<and> h \<le> 30)"
proof -
  have s: "size_c = 16384"
    by (simp add: size_c_def worldWidth_def worldDepth_def resolution_def)
  have c: "\<exists>pos. terrainPosition (createTerrain noise g) = Some pos \<and> count pos = 16384"
    using createTerrain_position [of noise g] by (auto simp add: gridBuffer_def count_def s)
  have h: "\<exists>h. vertexHeight (createTerrain noise g) (int k) = Some h \<and> 0 \<le> h \<and> h \<le> 30"
    if k: "k < 16384" for k
  proof -
    have k': "k < size_c" using k by (simp only: s)
    let ?n = "noise (real (k mod worldWidth) * noiseScale) (real (k div worldWidth) * noiseScale) 0"
    have n: "- 1 \<le> ?n" "?n \<le> 1" using assms(2) by simp_all
    have "toUint8 ((?n * 0.5 + 0.5) * 128) \<le> 128" by (rule toUint8_unit(2) [OF n])
    then have "real (toUint8 ((?n * 0.5 + 0.5) * 128)) \<le> 128" by linarith
    then have "0 \<le> real (toUint8 ((?n * 0.5 + 0.5) * 128)) * (heightScale / 128)
      \<and> real (toUint8 ((?n * 0.5 + 0.5) * 128)) * (heightScale / 128) \<le> 30"
      by (simp add: heightScale_def)
    then show ?thesis
      by (simp only: createTerrain_height [OF assms(1) k'] option.inject simp_thms ex_simps)
  qed
  show ?thesis
    using createTerrain_data(1) [OF assms(1), of noise] c h
    by (simp add: s resolution_def terrainWidth_def terrainDepth_def heightScale_def)
qed

theorem createTerrain_grid_bounds_witness:
  "length (data (createTerrain stepNoise (init_game None))) = 16384
   \<and> (\<exists>h. vertexHeight (createTerrain stepNoise (init_game None)) (int 16383) = Some h
          \<and> 0 \<le> h \<and> h \<le> 30)"
proof -
  have a: "length (data (init_game None)) = size_c"
    "\<forall>x y z. - 1 \<le> stepNoise x y z \<and> stepNoise x y z \<le> 1"
    by (simp_all add: init_game_def stepNoise_def)
  note t = createTerrain_grid_bounds [OF a]
  from t have l: "length (data (createTerrain stepNoise (init_game None))) = 16384"
    by blast
  from t have "(16383::nat) < 16384 \<longrightarrow>
      (\<exists>h. vertexHeight (createTerrain stepNoise (init_game None)) (int 16383) = Some h
          \<and> 0 \<le> h \<and> h \<le> 30)"
    by blast
  then have "\<exists>h. vertexHeight (createTerrain stepNoise (init_game None)) (int 16383) = Some h
          \<and> 0 \<le> h \<and> h \<le> 30"
    by simp
  with l show ?thesis by (rule conjI)
qed

section \<open>Queries outside the terrain rectangle\<close>

text \<open>
  Claim C1 says that outside the terrain rectangle \<open>getTerrainHeight\<close> returns the value
  at the nearest point of the rectangle. The code clamps the cell indices only; the
  fractional offsets still come from the unclamped coordinates. On the terrain whose first
  grid column has the height 30 and every other column the height 0, the query at
  \<open>(-300, 0)\<close>, left of the rectangle, returns \<open>52.49999999999994\<close>, while the query at the
  nearest point \<open>(-200, 0)\<close> of the rectangle returns 30.
\<close>

theorem getTerrainHeight_extrapolates:
  "getTerrainHeight (createTerrain stepNoise (init_game None)) (- 300) 0
     = Some (923589767331839 / 17592186044416)
   \<and> getTerrainHeight (createTerrain stepNoise (init_game None)) (- 200) 0 = Some 30
   \<and> clampedGridX (- 300) = 0 \<and> offset_u (- 300) = (- (422212465065983 / 562949953421312))"
  by (simp add: stepTerrain_query p00Index_def p10Index_def p01Index_def p11Index_def
      cellX_m300 cellX_m200 cellZ_0 blend_m300 blend_m200 worldWidth_def resolution_def)

section \<open>Quantized heights\<close>

text \<open>
  Claim C8 says that the stored grid values are integers in \<open>[0, 128]\<close>, that every
  vertex height is an integer multiple of \<open>heightScale / 128\<close>, and that every result of
  \<open>getTerrainHeight\<close> is a convex combination of four such heights. The first two parts
  hold (\<open>createTerrain_quantized\<close> above). The last part fails left of the terrain and in
  front of it, where the remainder is negative: on the terrain whose first grid column
  has the height 30 and every other column the height 0, the query at \<open>(-210, 0)\<close> reads
  the corner heights 30, 0, 30, 0 with the offset \<open>u\<close> about \<open>-0.175\<close> and returns 35.25,
  more than any of them.
\<close>

theorem getTerrainHeight_not_convex:
  "getTerrainHeight (createTerrain stepNoise (init_game None)) (- 210) 0 = Some (141 / 4)
   \<and> vertexHeight (createTerrain stepNoise (init_game None)) (p00Index (- 210) 0) = Some 30
   \<and> vertexHeight (createTerrain stepNoise (init_game None)) (p10Index (- 210) 0) = Some 0
   \<and> vertexHeight (createTerrain stepNoise (init_game None)) (p01Index (- 210) 0) = Some 30
   \<and> vertexHeight (createTerrain stepNoise (init_game None)) (p11Index (- 210) 0) = Some 0
   \<and> offset_u (- 210) = (- (197032483697459 / 1125899906842624))"
proof -
  have s: "size_c = 16384"
    by (simp add: size_c_def worldWidth_def worldDepth_def resolution_def)
  have p: "p00Index (- 210) 0 = int 8064" "p10Index (- 210) 0 = int 8065"
    "p01Index (- 210) 0 = int 8192" "p11Index (- 210) 0 = int 8193"
    by (simp_all add: p00Index_def p10Index_def p01Index_def p11Index_def cellX_m210 cellZ_0
        worldWidth_def resolution_def)
  have q: "getTerrainHeight (createTerrain stepNoise (init_game None)) (- 210) 0 = Some (141 / 4)"
    by (simp add: stepTerrain_query p00Index_def p10Index_def p01Index_def p11Index_def
      cellX_m210 cellZ_0 blend_m210 worldWidth_def resolution_def)
  have v: "vertexHeight (createTerrain stepNoise (init_game None)) (int 8064) = Some 30"
    "vertexHeight (createTerrain stepNoise (init_game None)) (int 8065) = Some 0"
    "vertexHeight (createTerrain stepNoise (init_game None)) (int 8192) = Some 30"
    "vertexHeight (createTerrain stepNoise (init_game None)) (int 8193) = Some 0"
    by (simp_all only: stepTerrain_height s) (simp_all add: worldWidth_def resolution_def)
  show ?thesis by (simp only: p q v cellX_m210 simp_thms)
qed

section \<open>The conform pass of the road generator\<close>

text \<open>
  Claim C6. When \<open>generateRoads\<close> returns, every planned path point has kept its \<open>x\<close> and
  \<open>z\<close> and has the height \<open>getTerrainHeight x z + 0.1\<close>; the geometry of the road mesh is
  the tube swept along the conformed points, carrying the texture coordinates computed
  on the first tube unchanged; and the rebuilt tube has as many vertices and as many
  texture coordinates as the first one.
\<close>

theorem generateRoads_conform:
  assumes "generateRoads lib g = Some g'"
  shows "\<exists>pathPoints' uv0 pos0 uvAttribute roadMesh tube pos.
      conform_loop g 0 plannedPath = Some pathPoints'
    \<and> length plannedPath = roadSegments + 1
    \<and> length pathPoints' = length plannedPath
    \<and> (\<forall>n < length plannedPath.
          \<exists>h. getTerrainHeight g (vec_x (plannedPath ! n)) (vec_z (plannedPath ! n)) = Some h
            \<and> pathPoints' ! n
                = Vector3 (vec_x (plannedPath ! n)) (h + 0.1) (vec_z (plannedPath ! n)))
    \<and> attr_uv (plannedTube lib) = Some uv0 \<and> attr_position (plannedTube lib) = Some pos0
    \<and> uv_loop uv0 pos0 (getLength lib plannedPath) 0 = Some uvAttribute
    \<and> roadMeshes g' = roadMeshes g @ [roadMesh]
    \<and> geometry roadMesh = Some tube
    \<and> attr_uv tube = Some uvAttribute
    \<and> attr_position tube
        = attr_position (TubeGeometry lib pathPoints' (roadSegments * 2) (roadWidth / 2) 8)
    \<and> attr_position tube = Some pos
    \<and> count pos = count pos0 \<and> count uvAttribute = count uv0 \<and> count pos = count uvAttribute"
proof -
  from generateRoads_Some [OF assms]
  obtain uv0 pos0 uvAttribute pathPoints' roadMesh where
    s: "attr_uv (plannedTube lib) = Some uv0" "attr_position (plannedTube lib) = Some pos0"
      "uv_loop uv0 pos0 (getLength lib plannedPath) 0 = Some uvAttribute"
      "conform_loop g 0 plannedPath = Some pathPoints'"
      "roadMeshes g' = roadMeshes g @ [roadMesh]"
      "geometry roadMesh = Some ((TubeGeometry lib pathPoints' (roadSegments * 2) (roadWidth / 2) 8)
                                  \<lparr>attr_uv := Some uvAttribute\<rparr>)"
    by blast
  let ?tube = "(TubeGeometry lib pathPoints' (roadSegments * 2) (roadWidth / 2) 8)
                                  \<lparr>attr_uv := Some uvAttribute\<rparr>"
  have c0: "itemSize pos0 = 3" "length (array pos0) = 3 * ((roadSegments * 2 + 1) * 9)"
    "length (array uv0) = 2 * ((roadSegments * 2 + 1) * 9)" "itemSize uv0 = 2"
    "count pos0 = (roadSegments * 2 + 1) * 9" "count uv0 = (roadSegments * 2 + 1) * 9"
    using plannedTube_counts [of lib] s(1,2) by auto
  have "3 * count uv0 \<le> length (array pos0)" by (simp only: c0)
  from uv_loop_total [OF c0(1) this, of "getLength lib plannedPath" 0] s(3)
  have u: "length (array uvAttribute) = length (array uv0)" "itemSize uvAttribute = itemSize uv0"
    by auto
  have cu: "count uvAttribute = count uv0" by (simp add: count_def u)
  obtain pos where p: "attr_position ?tube = Some pos" "count pos = (roadSegments * 2 + 1) * 9"
    using TubeGeometry_attributes [of lib pathPoints' "roadSegments * 2" "roadWidth / 2" 8]
    by auto
  have cp: "count pos = count pos0" "count pos = count uvAttribute"
    by (simp_all only: p(2) c0(5,6) cu)
  note r = conform_loop_result [OF s(4)]
  have l: "length pathPoints' = length plannedPath" using r by blast
  have h: "\<forall>n < length plannedPath.
          \<exists>h. getTerrainHeight g (vec_x (plannedPath ! n)) (vec_z (plannedPath ! n)) = Some h
            \<and> pathPoints' ! n
                = Vector3 (vec_x (plannedPath ! n)) (h + 0.1) (vec_z (plannedPath ! n))"
    using r by simp
  have t: "attr_uv ?tube = Some uvAttribute"
    "attr_position ?tube
        = attr_position (TubeGeometry lib pathPoints' (roadSegments * 2) (roadWidth / 2) 8)"
    by simp_all
  have n: "length plannedPath = roadSegments + 1"
    using plan_loop_length [of 0 "[]"] by (simp add: plannedPath_def)
  show ?thesis
    using s(4) n l h s(1,2,3,5,6) t p(1) cp cu by blast
qed

theorem generateRoads_conform_witness:
  "\<exists>g' roadMesh tube. generateRoads flatLib (init_game None) = Some g'
     \<and> roadMeshes g' = roadMeshes (init_game None) @ [roadMesh]
     \<and> geometry roadMesh = Some tube"
proof -
  obtain g' where g: "generateRoads flatLib (init_game None) = Some g'"
    using generateRoads_total [of "init_game None" flatLib] getTerrainHeight_init by blast
  from generateRoads_conform [OF g] g show ?thesis by blast
qed

section \<open>The lift of the road mesh\<close>

text \<open>
  Claim C10. When \<open>generateRoads\<close> returns, the geometry of the road mesh is the tube
  swept along the 101 conformed points, each of them a planned point of the sine path
  lifted to 0.1 above the terrain height queried at its \<open>x\<close> and \<open>z\<close>; the mesh has the position \<open>(0, 0.5, 0)\<close>, and its rotation and
  scale are the defaults \<open>(0, 0, 0)\<close> and \<open>(1, 1, 1)\<close>, so that its transform is the
  translation by its position: in the world every conformed centerline point lies
  \<open>0.5 + 0.1 = 0.6\<close> above the queried terrain height.
\<close>

theorem generateRoads_lift:
  assumes "generateRoads lib g = Some g'"
  shows "\<exists>pathPoints' roadMesh tube.
      conform_loop g 0 plannedPath = Some pathPoints'
    \<and> length plannedPath = roadSegments + 1 \<and> length pathPoints' = roadSegments + 1
    \<and> roadMeshes g' = roadMeshes g @ [roadMesh] \<and> scene g' = scene g @ [roadMesh]
    \<and> geometry roadMesh = Some tube
    \<and> attr_position tube
        = attr_position (TubeGeometry lib pathPoints' (roadSegments * 2) (roadWidth / 2) 8)
    \<and> position roadMesh = Vector3 0 0.5 0
    \<and> rotation roadMesh = Vector3 0 0 0 \<and> scale roadMesh = Vector3 1 1 1
    \<and> (\<forall>n < roadSegments + 1.
          plannedPath ! n
              = Vector3 (sin ((roadStartZ + real n * roadSegmentLength) * 0.05) * 5) 0
                  (roadStartZ + real n * roadSegmentLength)
        \<and> (\<exists>h. getTerrainHeight g (vec_x (plannedPath ! n)) (vec_z (plannedPath ! n)) = Some h
            \<and> pathPoints' ! n
                = Vector3 (vec_x (plannedPath ! n)) (h + 0.1) (vec_z (plannedPath ! n))
            \<and> vec_x (position roadMesh) + vec_x (pathPoints' ! n) = vec_x (plannedPath ! n)
            \<and> vec_y (position roadMesh) + vec_y (pathPoints' ! n) = h + 0.6
            \<and> vec_z (position roadMesh) + vec_z (pathPoints' ! n) = vec_z (plannedPath ! n)))"
proof -
  from generateRoads_Some [OF assms]
  obtain uvAttribute pathPoints' roadMesh where
    s: "conform_loop g 0 plannedPath = Some pathPoints'"
      "roadMeshes g' = roadMeshes g @ [roadMesh]" "scene g' = scene g @ [roadMesh]"
      "geometry roadMesh = Some ((TubeGeometry lib pathPoints' (roadSegments * 2) (roadWidth / 2) 8)
                                  \<lparr>attr_uv := Some uvAttribute\<rparr>)"
      "position roadMesh = Vector3 0 0.5 0" "rotation roadMesh = Vector3 0 0 0"
      "scale roadMesh = Vector3 1 1 1"
    by blast
  let ?tube = "(TubeGeometry lib pathPoints' (roadSegments * 2) (roadWidth / 2) 8)
                                  \<lparr>attr_uv := Some uvAttribute\<rparr>"
  have t: "attr_position ?tube
        = attr_position (TubeGeometry lib pathPoints' (roadSegments * 2) (roadWidth / 2) 8)"
    by simp
  have n: "length plannedPath = roadSegments + 1"
    using plan_loop_length [of 0 "[]"] by (simp add: plannedPath_def)
  note r = conform_loop_result [OF s(1)]
  have l: "length pathPoints' = roadSegments + 1" using r n by simp
  have "plannedPath ! k
              = Vector3 (sin ((roadStartZ + real k * roadSegmentLength) * 0.05) * 5) 0
                  (roadStartZ + real k * roadSegmentLength)
        \<and> (\<exists>h. getTerrainHeight g (vec_x (plannedPath ! k)) (vec_z (plannedPath ! k)) = Some h
            \<and> pathPoints' ! k
                = Vector3 (vec_x (plannedPath ! k)) (h + 0.1) (vec_z (plannedPath ! k))
            \<and> vec_x (position roadMesh) + vec_x (pathPoints' ! k) = vec_x (plannedPath ! k)
            \<and> vec_y (position roadMesh) + vec_y (pathPoints' ! k) = h + 0.6
            \<and> vec_z (position roadMesh) + vec_z (pathPoints' ! k) = vec_z (plannedPath ! k))"
    if k: "k < roadSegments + 1" for k
  proof -
    have k': "k < length plannedPath" using k n by simp
    with r obtain h where
      h: "getTerrainHeight g (vec_x (plannedPath ! k)) (vec_z (plannedPath ! k)) = Some h"
        "pathPoints' ! k = Vector3 (vec_x (plannedPath ! k)) (h + 0.1) (vec_z (plannedPath ! k))"
      by auto
    have e: "\<exists>h. getTerrainHeight g (vec_x (plannedPath ! k)) (vec_z (plannedPath ! k)) = Some h
            \<and> pathPoints' ! k
                = Vector3 (vec_x (plannedPath ! k)) (h + 0.1) (vec_z (plannedPath ! k))
            \<and> vec_x (position roadMesh) + vec_x (pathPoints' ! k) = vec_x (plannedPath ! k)
            \<and> vec_y (position roadMesh) + vec_y (pathPoints' ! k) = h + 0.6
            \<and> vec_z (position roadMesh) + vec_z (pathPoints' ! k) = vec_z (plannedPath ! k)"
      using h by (simp add: s(5))
    show ?thesis using plannedPath_nth [OF k] e by (rule conjI)
  qed
  then show ?thesis using s(1,2,3,4,5,6,7) t n l by blast
qed

theorem generateRoads_lift_witness:
  "\<exists>g' roadMesh tube. generateRoads flatLib (createTerrain stepNoise (init_game None)) = Some g'
     \<and> roadMeshes g' = [roadMesh] \<and> geometry roadMesh = Some tube
     \<and> position roadMesh = Vector3 0 0.5 0"
proof -
  have "\<forall>x z. \<exists>h. getTerrainHeight (createTerrain stepNoise (init_game None)) x z = Some h"
    by (simp add: stepTerrain_query)
  then obtain g' where g: "generateRoads flatLib (createTerrain stepNoise (init_game None)) = Some g'"
    using generateRoads_total by blast
  have "roadMeshes (createTerrain stepNoise (init_game None)) = []"
    by (simp add: createTerrain_def init_game_def Let_def split: prod.splits)
  with generateRoads_lift [OF g] g show ?thesis by auto
qed

section \<open>The placed trees\<close>

text \<open>
  Claim C7. When \<open>populateTrees\<close> returns, with random numbers in \<open>[0, 1)\<close>, it has added
  500 instances to the scene (none when no tree model is loaded), and every one of them
  lies outside the band \<open>|x| < 18 and |z| < 400\<close>, inside the sampling margin
  \<open>[-0.45 * terrainWidth, 0.45 * terrainWidth]\<close> by
  \<open>[-0.45 * terrainDepth, 0.45 * terrainDepth]\<close>, at the height of the terrain, with a yaw
  in \<open>[0, 2\<pi>)\<close>.
\<close>

theorem populateTrees_instances:
  assumes "populateTrees g random k = Some (g', k')"
    and "\<forall>n. 0 \<le> random n \<and> random n < 1"
  shows "\<exists>trees. scene g' = scene g @ trees
    \<and> (treeModel g \<noteq> None \<longrightarrow> length trees = 500)
    \<and> (\<forall>t \<in> set trees.
          \<not> (\<bar>vec_x (position t)\<bar> < 18 \<and> \<bar>vec_z (position t)\<bar> < 400)
        \<and> - (0.45 * terrainWidth) \<le> vec_x (position t)
        \<and> vec_x (position t) \<le> 0.45 * terrainWidth
        \<and> - (0.45 * terrainDepth) \<le> vec_z (position t)
        \<and> vec_z (position t) \<le> 0.45 * terrainDepth
        \<and> getTerrainHeight g (vec_x (position t)) (vec_z (position t)) = Some (vec_y (position t))
        \<and> 0 \<le> vec_y (rotation t) \<and> vec_y (rotation t) < 2 * pi)"
proof (cases "treeModel g")
  case None
  then have "g' = g" using assms(1) by (simp add: populateTrees_def)
  then have "scene g' = scene g @ []" by simp
  then show ?thesis using None by (intro exI [of _ "[]"]) simp
next
  case (Some model)
  obtain clones where c: "populateTrees_loop g model random 0 k [] = Some (clones, k')"
    "g' = g\<lparr>scene := scene g @ clones\<rparr>"
    using assms(1) Some by (auto simp add: populateTrees_def split: option.splits)
  from populateTrees_loop_result [OF c(1) assms(2)]
  have r: "length clones = numTrees" "\<forall>t \<in> set clones. treeOk g t" by auto
  have "scene g' = scene g @ clones" using c(2) by simp
  moreover have "length clones = 500" using r(1) by (simp add: numTrees_def)
  ultimately show ?thesis
    using r(2) by (intro exI [of _ clones]) (simp add: treeOk_def)
qed

theorem populateTrees_instances_witness:
  "\<exists>g' k' trees. populateTrees (init_game (Some plainModel)) constRandom 0 = Some (g', k')
     \<and> scene g' = trees \<and> length trees = 500
     \<and> (\<forall>n. 0 \<le> constRandom n \<and> constRandom n < 1)"
proof -
  have h: "\<forall>x z. \<exists>h. getTerrainHeight (init_game (Some plainModel)) x z = Some h"
    by (simp add: getTerrainHeight_init)
  obtain clones k' where l: "populateTrees_loop (init_game (Some plainModel)) plainModel
      constRandom 0 0 [] = Some (clones, k')"
    using populateTrees_loop_const [OF h, of plainModel 0 0 "[]"] by auto
  have p: "populateTrees (init_game (Some plainModel)) constRandom 0
      = Some ((init_game (Some plainModel))\<lparr>scene := scene (init_game (Some plainModel)) @ clones\<rparr>, k')"
  proof -
    have tm: "treeModel (init_game (Some plainModel)) = Some plainModel"
      by (simp add: init_game_def)
    show ?thesis by (simp only: populateTrees_def tm option.case l prod.case)
  qed
  have r: "\<forall>n. 0 \<le> constRandom n \<and> constRandom n < 1" by (simp add: constRandom_def)
  have m: "treeModel (init_game (Some plainModel)) \<noteq> None" "scene (init_game (Some plainModel)) = []"
    by (simp_all add: init_game_def)
  from populateTrees_instances [OF p r] m r p show ?thesis by auto
qed

end
